theory Spec2Isabelle
  imports
    Complex_Main
    "HOL-Library.Word"
    "HOL-Library.Sublist"
    "HOL-Library.Multiset"
    "HOL-Library.Char_ord"
    "HOL-Library.List_Lexorder"
begin

unbundle bit_operations_syntax

section \<open>Nearby cities: errors, rows and external collaborators\<close>

text \<open>
  The service is glue around a relational store (SQLite through \<^verbatim>\<open>database/sql\<close>), the
  \<^verbatim>\<open>geohash\<close> package and the Go standard library. None of these is part of the repository,
  so each enters the model as a field of the record \<open>libs\<close>; the repository's own functions
  are translated line by line on top of them. \<^verbatim>\<open>float64\<close> values are modelled by the reals
  they denote (no NaN, no infinities); where the program multiplies and divides them the
  result is rounded to the nearest \<^verbatim>\<open>float64\<close>.
\<close>

datatype error =
    ErrNoRows                 \<comment> \<open>\<^verbatim>\<open>sql.ErrNoRows\<close>\<close>
  | ErrDriver string          \<comment> \<open>an error reported by the driver, the shell or the OS\<close>
  | ErrConvert string         \<comment> \<open>\<^verbatim>\<open>Scan\<close> could not convert a column\<close>
  | ErrConstraint string      \<comment> \<open>a UNIQUE or PRIMARY KEY constraint failed\<close>
  | Errorf string error       \<comment> \<open>\<^verbatim>\<open>fmt.Errorf("...: %w", err)\<close>\<close>
  | ErrMsg string             \<comment> \<open>\<^verbatim>\<open>fmt.Errorf\<close> without a wrapped error\<close>
  | Panic string              \<comment> \<open>a run-time panic (index or slice bounds out of range)\<close>

text \<open>
  Every call of the source whose error result is inspected can fail for reasons outside the
  program (I/O, locking, a missing file). A run is therefore parameterised by the set of
  points at which the environment makes a call fail.
\<close>

datatype fault_point =
    F_CreateMigrations | F_CheckMigration | F_Download | F_ImportIP2Location
  | F_CreateTemp | F_WriteTemp | F_CreateIP2Location | F_ImportCities | F_CreateIndex
  | F_CreateFts | F_PopulateFts | F_Begin | F_SelectCities
  | F_Next nat | F_Scan nat | F_Insert nat | F_Mark | F_Commit
  | F_IPLookup | F_FtsLookup | F_Candidates | F_Between | F_Marshal

type_synonym faults = "fault_point \<Rightarrow> bool"

definition no_faults :: faults where
  "no_faults = (\<lambda>p. False)"

text \<open>The struct \<^verbatim>\<open>city\<close> of the handlers.\<close>

record city =
  City :: string
  CityAscii :: string
  Lat :: real
  Lng :: real
  Country :: string
  Iso2 :: string
  Iso3 :: string
  AdminName :: string
  Capital :: string
  Population :: string
  ID :: string
  Geohash :: string
  Distance :: real

definition city0 :: city where
  "city0 = \<lparr>City = [], CityAscii = [], Lat = 0, Lng = 0, Country = [], Iso2 = [], Iso3 = [],
     AdminName = [], Capital = [], Population = [], ID = [], Geohash = [], Distance = 0\<rparr>"

text \<open>
  A row of the table \<^verbatim>\<open>cities\<close>. The table is created by the \<^verbatim>\<open>sqlite3\<close> shell's
  \<^verbatim>\<open>.import\<close>, so every column holds text; \<^verbatim>\<open>Scan\<close> converts on the way out.
\<close>

record cities_row =
  c_city :: string
  c_city_ascii :: string
  c_lat :: string
  c_lng :: string
  c_country :: string
  c_iso2 :: string
  c_iso3 :: string
  c_admin_name :: string
  c_capital :: string
  c_population :: string
  c_id :: string

text \<open>A row of \<^verbatim>\<open>geospatial_index (geohash TEXT, city_id INTEGER UNIQUE)\<close>.\<close>

record index_row =
  g_geohash :: string
  g_city_id :: int

record IP2LocationData =
  StartIP :: "32 word"
  EndIP :: "32 word"
  ip_Country :: string
  ip_Region :: string
  ip_City :: string
  ip_Lat :: real
  ip_Lng :: real

record database =
  migrations :: "string list"
  cities :: "cities_row list"
  geospatial_index :: "index_row list"
  cities_fts :: "cities_row list option"   \<comment> \<open>\<open>None\<close>: the virtual table does not exist\<close>
  ip2location :: "string list list"

text \<open>
  What the program takes from outside the repository. \<open>sort_Slice\<close> is \<^verbatim>\<open>sort.Slice\<close>
  with the slice and the comparison made explicit; \<open>sqlite_import\<close> gives a table after the
  shell's \<^verbatim>\<open>.import\<close> of a file; \<open>fts5_MATCH\<close> and \<open>ip2location_BETWEEN\<close> are the two
  queries whose matching rules belong to the storage engine, and \<open>sqlite_eq\<close> is its
  comparison \<^verbatim>\<open>g.city_id = c.id\<close> of a text column with an integer column.
\<close>

record libs =
  geohash_Encode :: "real \<Rightarrow> real \<Rightarrow> string"
  geohash_EstimateLengthRequired :: "real \<Rightarrow> int"
  geohash_Distance :: "real \<Rightarrow> real \<Rightarrow> real \<Rightarrow> real \<Rightarrow> real"
  geohash_BoundingBox :: "real \<Rightarrow> real \<Rightarrow> real \<Rightarrow> real \<times> real \<times> real \<times> real"
  sort_Slice :: "(city \<Rightarrow> city \<Rightarrow> bool) \<Rightarrow> city list \<Rightarrow> city list"
  strconv_ParseFloat :: "string \<Rightarrow> real option"
  strconv_ParseInt :: "string \<Rightarrow> int option"
  net_ParseIP :: "string \<Rightarrow> 8 word list"
  unicode_P :: "char \<Rightarrow> bool"
  fts5_MATCH :: "string \<Rightarrow> cities_row list \<Rightarrow> string + cities_row list"
  ip2location_BETWEEN :: "32 word \<Rightarrow> string list list \<Rightarrow> IP2LocationData option"
  sqlite_eq :: "string \<Rightarrow> int \<Rightarrow> bool"
  sqlite_import_cities :: "cities_row list \<Rightarrow> cities_row list"
  sqlite_import_ip2location :: "string list list \<Rightarrow> string list list"

section \<open>The storage engine's LIKE\<close>

text \<open>
  SQLite's \<^verbatim>\<open>LIKE\<close> as the service uses it (no ESCAPE clause, default settings): \<^verbatim>\<open>%\<close>
  matches any run of characters, \<^verbatim>\<open>_\<close> any single character, and every other character
  matches itself up to the case of ASCII letters.
\<close>

definition ascii_lower :: "char \<Rightarrow> char" where
  "ascii_lower c =
     (if CHR ''A'' \<le> c \<and> c \<le> CHR ''Z'' then char_of (of_char c + (32 :: nat)) else c)"

fun sqlite_like :: "string \<Rightarrow> string \<Rightarrow> bool" where
  "sqlite_like [] [] = True"
| "sqlite_like [] (c # cs) = False"
| "sqlite_like (p # ps) [] = (p = CHR ''%'' \<and> sqlite_like ps [])"
| "sqlite_like (p # ps) (c # cs) =
     (if p = CHR ''%'' then sqlite_like ps (c # cs) \<or> sqlite_like (p # ps) cs
      else (p = CHR ''_'' \<or> ascii_lower p = ascii_lower c) \<and> sqlite_like ps cs)"

text \<open>
  Modelled from the spec: the alphabet in which \<^verbatim>\<open>geohash.Encode\<close> writes a key (the
  package is not part of the repository): digits and lower-case letters without a, i, l
  and o.
\<close>

definition base32 :: string where
  "base32 = ''0123456789bcdefghjkmnpqrstuvwxyz''"

definition geokey :: "string \<Rightarrow> bool" where
  "geokey k = list_all (\<lambda>c. c \<in> set base32) k"

section \<open>The proximity query\<close>

text \<open>
  Rounding a real to \<^verbatim>\<open>float64\<close> (IEEE 754 binary64, round to nearest, ties to even): the
  binade of the magnitude is found by halving or doubling, subnormal numbers share the
  exponent \<open>-1022\<close>, and the significand has 53 bits. Magnitudes that would overflow are not
  modelled.
\<close>

definition round_half_even :: "real \<Rightarrow> int" where
  "round_half_even x =
     (if x - of_int \<lfloor>x\<rfloor> < 1 / 2 then \<lfloor>x\<rfloor>
      else if 1 / 2 < x - of_int \<lfloor>x\<rfloor> then \<lfloor>x\<rfloor> + 1
      else if even \<lfloor>x\<rfloor> then \<lfloor>x\<rfloor> else \<lfloor>x\<rfloor> + 1)"

function binade :: "nat \<Rightarrow> real \<Rightarrow> int" where
  "binade n x =
     (if n = 0 then 0
      else if 2 \<le> x then binade (n - 1) (x / 2) + 1
      else if x < 1 then binade (n - 1) (x * 2) - 1
      else 0)"
  by pat_completeness auto
termination
  by (relation "measure (\<lambda>(n, x). n)") auto

definition pow2 :: "int \<Rightarrow> real" where
  "pow2 e = (if 0 \<le> e then 2 ^ nat e else 1 / 2 ^ nat (- e))"

definition float64 :: "real \<Rightarrow> real" where
  "float64 x =
     (if x = 0 then 0
      else sgn x * of_int (round_half_even (\<bar>x\<bar> / pow2 (max (binade 2200 \<bar>x\<bar>) (- 1022) - 52)))
             * pow2 (max (binade 2200 \<bar>x\<bar>) (- 1022) - 52))"

text \<open>
  \<^verbatim>\<open>math.Round\<close>: the nearest integer, halves away from zero. On a \<^verbatim>\<open>float64\<close> the result
  is exact.
\<close>

definition math_Round :: "real \<Rightarrow> real" where
  "math_Round x = (if x < 0 then - of_int \<lfloor>- x + 1 / 2\<rfloor> else of_int \<lfloor>x + 1 / 2\<rfloor>)"

text \<open>
  The rows a cursor hands out: \<^verbatim>\<open>rows.Next()\<close> returns false at the end of the result or
  at the first failure, in which case \<^verbatim>\<open>rows.Err()\<close> is not nil afterwards.
\<close>

fun rows_Next :: "faults \<Rightarrow> nat \<Rightarrow> 'r list \<Rightarrow> 'r list \<times> bool" where
  "rows_Next F k [] = ([], F (F_Next k))"
| "rows_Next F k (r # rs) =
     (if F (F_Next k) then ([], True)
      else (r # fst (rows_Next F (Suc k) rs), snd (rows_Next F (Suc k) rs)))"

text \<open>
  \<^verbatim>\<open>SELECT c.city, c.lat, c.lng, c.admin_name, c.country, g.geohash
  FROM cities c JOIN geospatial_index g ON g.city_id = c.id WHERE g.geohash LIKE ?\<close>.
  The text column \<^verbatim>\<open>c.id\<close> is compared with the integer \<^verbatim>\<open>g.city_id\<close> by the storage
  engine. There is no ORDER BY; the rows are listed city by city.
\<close>

definition query_LIKE ::
  "libs \<Rightarrow> faults \<Rightarrow> database \<Rightarrow> string \<Rightarrow> error + (cities_row \<times> index_row) list" where
  "query_LIKE L F db pat =
     (if F F_Candidates then Inl (ErrDriver ''query'')
      else Inr [(c, g). c \<leftarrow> cities db, g \<leftarrow> geospatial_index db,
                 sqlite_eq L (c_id c) (g_city_id g),
                 sqlite_like pat (g_geohash g)])"

text \<open>
  \<^verbatim>\<open>rows.Scan(&toCity.City, &toCity.Lat, &toCity.Lng, &toCity.AdminName, &toCity.Country,
  &toCity.Geohash)\<close> into a zero-valued \<^verbatim>\<open>city\<close>: the two coordinates are converted from
  text, which fails on text that is no number.
\<close>

definition rows_Scan :: "libs \<Rightarrow> faults \<Rightarrow> nat \<Rightarrow> cities_row \<times> index_row \<Rightarrow> error + city" where
  "rows_Scan L F k cg =
     (if F (F_Scan k) then Inl (ErrDriver ''scan'')
      else case (strconv_ParseFloat L (c_lat (fst cg)), strconv_ParseFloat L (c_lng (fst cg))) of
        (Some la, Some lo) \<Rightarrow>
          Inr (city0\<lparr>City := c_city (fst cg), Lat := la, Lng := lo,
                 AdminName := c_admin_name (fst cg), Country := c_country (fst cg),
                 Geohash := g_geohash (snd cg)\<rparr>)
      | _ \<Rightarrow> Inl (ErrConvert ''float64''))"

text \<open>
  \<^verbatim>\<open>distance := geohash.Distance(lat, lng, toCity.Lat, toCity.Lng);
  toCity.Distance = math.Round(distance*100) / 100\<close>, the product and the quotient
  each rounded to \<^verbatim>\<open>float64\<close>.
\<close>

definition setDistance :: "libs \<Rightarrow> real \<Rightarrow> real \<Rightarrow> city \<Rightarrow> city" where
  "setDistance L lat lng toCity =
     (let distance = geohash_Distance L lat lng (Lat toCity) (Lng toCity)
      in toCity\<lparr>Distance := float64 (math_Round (float64 (distance * 100)) / 100)\<rparr>)"

text \<open>The loop \<^verbatim>\<open>for rows.Next() { ... cities = append(cities, toCity) }\<close>.\<close>

fun scanRows ::
  "libs \<Rightarrow> faults \<Rightarrow> real \<Rightarrow> real \<Rightarrow> nat \<Rightarrow> (cities_row \<times> index_row) list \<Rightarrow> city list
     \<Rightarrow> error + city list" where
  "scanRows L F lat lng k [] cs = Inr cs"
| "scanRows L F lat lng k (cg # rows) cs =
     (case rows_Scan L F k cg of
        Inl err \<Rightarrow> Inl err
      | Inr toCity \<Rightarrow> scanRows L F lat lng (Suc k) rows (cs @ [setDistance L lat lng toCity]))"

definition byDistance :: "city \<Rightarrow> city \<Rightarrow> bool" where
  "byDistance a b = (Distance a < Distance b)"

definition findNearbyCitiesByLatLng ::
  "libs \<Rightarrow> faults \<Rightarrow> database \<Rightarrow> real \<Rightarrow> real \<Rightarrow> error + city list" where
  "findNearbyCitiesByLatLng L F db lat lng =
     (let hash = geohash_Encode L lat lng;
          len = geohash_EstimateLengthRequired L 100
      in if len < 0 \<or> int (length hash) < len then Inl (Panic ''slice bounds out of range'')
         else case query_LIKE L F db (take (nat len) hash @ ''%'') of
           Inl err \<Rightarrow> Inl err
         | Inr rows \<Rightarrow>
             (case scanRows L F lat lng 0 (fst (rows_Next F 0 rows)) [] of
                Inl err \<Rightarrow> Inl err
              | Inr cs \<Rightarrow> Inr (sort_Slice L byDistance cs)))"

section \<open>Name-based resolution and the search handlers\<close>

text \<open>\<^verbatim>\<open>regexp.MustCompile(`[\p{P}]`).ReplaceAllString(query, "")\<close>\<close>

definition normalizeQuery :: "libs \<Rightarrow> string \<Rightarrow> string" where
  "normalizeQuery L query = filter (\<lambda>c. \<not> unicode_P L c) query"

text \<open>
  \<^verbatim>\<open>db.QueryRow(`SELECT city, lat, lng, country FROM cities_fts WHERE cities_fts MATCH ?`,
  normalizedCity)\<close> followed by \<^verbatim>\<open>row.Scan(&c.City, &c.Lat, &c.Lng, &c.Country)\<close>:
  the first matching row, \<^verbatim>\<open>sql.ErrNoRows\<close> when there is none, or the error of the query.
\<close>

definition queryRow_MATCH :: "libs \<Rightarrow> faults \<Rightarrow> database \<Rightarrow> string \<Rightarrow> error + city" where
  "queryRow_MATCH L F db q =
     (if F F_FtsLookup then Inl (ErrDriver ''query'')
      else case cities_fts db of
        None \<Rightarrow> Inl (ErrDriver ''no such table: cities_fts'')
      | Some t \<Rightarrow>
          (case fts5_MATCH L q t of
             Inl msg \<Rightarrow> Inl (ErrDriver msg)
           | Inr [] \<Rightarrow> Inl ErrNoRows
           | Inr (r # _) \<Rightarrow>
               (case (strconv_ParseFloat L (c_lat r), strconv_ParseFloat L (c_lng r)) of
                  (Some la, Some lo) \<Rightarrow>
                    Inr (city0\<lparr>City := c_city r, Lat := la, Lng := lo, Country := c_country r\<rparr>)
                | _ \<Rightarrow> Inl (ErrConvert ''float64''))))"

definition findNearbyCities :: "libs \<Rightarrow> faults \<Rightarrow> database \<Rightarrow> string \<Rightarrow> error + city list" where
  "findNearbyCities L F db fromCity =
     (let normalizedCity = normalizeQuery L fromCity
      in case queryRow_MATCH L F db normalizedCity of
           Inl err \<Rightarrow> Inl err
         | Inr c \<Rightarrow> findNearbyCitiesByLatLng L F db (Lat c) (Lng c))"

record PageData =
  FromCity :: string
  Radius :: string
  NearbyCities :: "city list"
  Message :: string

definition PageData0 :: PageData where
  "PageData0 = \<lparr>FromCity = [], Radius = [], NearbyCities = [], Message = []\<rparr>"

text \<open>
  What a handler does with a request: it executes the template on a page, or it returns an
  error to the router (which answers 500), or it panics.
\<close>

datatype response = Rendered PageData | Failed error

fun is_Panic :: "error \<Rightarrow> bool" where
  "is_Panic (Panic m) = True"
| "is_Panic e = False"

text \<open>\<^verbatim>\<open>searchHandler\<close> of the variant with IP resolution (it logs and renders every other error).\<close>

definition searchHandler :: "libs \<Rightarrow> faults \<Rightarrow> database \<Rightarrow> string \<Rightarrow> response" where
  "searchHandler L F db fromCity =
     (case findNearbyCities L F db fromCity of
        Inl err \<Rightarrow>
          if is_Panic err then Failed err
          else if err = ErrNoRows then
            Rendered (PageData0\<lparr>Message := ''No matching city found.''\<rparr>)
          else
            Rendered (PageData0\<lparr>Message := ''Oops! Something went wrong. Please try again later.''\<rparr>)
      | Inr nearbyCities \<Rightarrow>
          Rendered (PageData0\<lparr>FromCity := fromCity, NearbyCities := nearbyCities\<rparr>))"

text \<open>\<^verbatim>\<open>searchHandler\<close> of the earlier variant: every other error is returned to the router.\<close>

definition searchHandler_returning :: "libs \<Rightarrow> faults \<Rightarrow> database \<Rightarrow> string \<Rightarrow> response" where
  "searchHandler_returning L F db fromCity =
     (case findNearbyCities L F db fromCity of
        Inl err \<Rightarrow>
          if is_Panic err then Failed err
          else if err = ErrNoRows then
            Rendered (PageData0\<lparr>Message := ''No matching city found.''\<rparr>)
          else Failed err
      | Inr nearbyCities \<Rightarrow>
          Rendered (PageData0\<lparr>FromCity := fromCity, NearbyCities := nearbyCities\<rparr>))"

section \<open>IP-based resolution\<close>

type_synonym IP = "8 word list"   \<comment> \<open>\<^verbatim>\<open>net.IP\<close>, a byte slice; \<open>[]\<close> is \<^verbatim>\<open>nil\<close>\<close>

text \<open>\<^verbatim>\<open>net.IPv4(a, b, c, d)\<close>: the 16-byte form that \<^verbatim>\<open>net.ParseIP\<close> returns for a dotted quad.\<close>

definition IPv4 :: "8 word \<Rightarrow> 8 word \<Rightarrow> 8 word \<Rightarrow> 8 word \<Rightarrow> IP" where
  "IPv4 a b c d = [0, 0, 0, 0, 0, 0, 0, 0, 0, 0, 0xff, 0xff, a, b, c, d]"

text \<open>\<^verbatim>\<open>func (ip IP) To4() IP\<close> of package \<^verbatim>\<open>net\<close>.\<close>

definition To4 :: "IP \<Rightarrow> IP" where
  "To4 ip =
     (if length ip = 4 then ip
      else if length ip = 16 \<and> list_all (\<lambda>b. b = 0) (take 10 ip)
                \<and> ip ! 10 = 0xff \<and> ip ! 11 = 0xff
           then drop 12 ip
      else [])"

text \<open>
  \<^verbatim>\<open>for i := 0; i < len(b); i++ { if b[i] < start[i] || b[i] > end[i] { return false } }
  return true\<close>. Reading \<^verbatim>\<open>start[i]\<close> or \<^verbatim>\<open>end[i]\<close> past the end panics.
\<close>

function bytesWithinRange_from :: "nat \<Rightarrow> IP \<Rightarrow> IP \<Rightarrow> IP \<Rightarrow> error + bool" where
  "bytesWithinRange_from i b start end' =
     (if i < length b then
        (if length start \<le> i then Inl (Panic ''index out of range'')
         else if b ! i < start ! i then Inr False
         else if length end' \<le> i then Inl (Panic ''index out of range'')
         else if b ! i > end' ! i then Inr False
         else bytesWithinRange_from (Suc i) b start end')
      else Inr True)"
  by pat_completeness auto
termination
  by (relation "measure (\<lambda>(i, b, start, end'). length b - i)") auto

definition bytesWithinRange :: "IP \<Rightarrow> IP \<Rightarrow> IP \<Rightarrow> error + bool" where
  "bytesWithinRange b start end' = bytesWithinRange_from 0 b start end'"

definition privateIPv4Ranges :: "libs \<Rightarrow> (IP \<times> IP) list" where
  "privateIPv4Ranges L =
     [(net_ParseIP L ''10.0.0.0'', net_ParseIP L ''10.255.255.255''),
      (net_ParseIP L ''172.16.0.0'', net_ParseIP L ''172.31.255.255''),
      (net_ParseIP L ''192.168.0.0'', net_ParseIP L ''192.168.255.255'')]"

text \<open>\<^verbatim>\<open>for _, r := range privateIPv4Ranges { if bytesWithinRange(...) { return true } }\<close>\<close>

fun isPrivateIP_range :: "IP \<Rightarrow> (IP \<times> IP) list \<Rightarrow> error + bool" where
  "isPrivateIP_range ip [] = Inr False"
| "isPrivateIP_range ip (r # rs) =
     (case bytesWithinRange (To4 ip) (To4 (fst r)) (To4 (snd r)) of
        Inl p \<Rightarrow> Inl p
      | Inr inside \<Rightarrow> if inside then Inr True else isPrivateIP_range ip rs)"

definition isPrivateIP :: "libs \<Rightarrow> IP \<Rightarrow> error + bool" where
  "isPrivateIP L ip = isPrivateIP_range ip (privateIPv4Ranges L)"

definition ipToInteger :: "libs \<Rightarrow> string \<Rightarrow> error + 32 word" where
  "ipToInteger L ipAddr =
     (let parsedIP = net_ParseIP L ipAddr
      in if parsedIP = [] then Inl (ErrMsg ''invalid IP address'')
         else let ipBytes = To4 parsedIP
              in if ipBytes = [] then Inl (ErrMsg ''not an IPv4 address'')
                 else Inr (push_bit 24 (ucast (ipBytes ! 0)) OR push_bit 16 (ucast (ipBytes ! 1))
                           OR push_bit 8 (ucast (ipBytes ! 2)) OR ucast (ipBytes ! 3)))"

text \<open>
  \<^verbatim>\<open>SELECT ... FROM ip2location WHERE ? BETWEEN start_ip AND end_ip ORDER BY end_ip LIMIT 1\<close>
  and the \<^verbatim>\<open>Scan\<close> of its row; the handler does not tell a missing row from an error.
\<close>

definition queryRow_ip2location ::
  "libs \<Rightarrow> faults \<Rightarrow> database \<Rightarrow> 32 word \<Rightarrow> error + IP2LocationData" where
  "queryRow_ip2location L F db ipInteger =
     (if F F_IPLookup then Inl (ErrDriver ''query'')
      else case ip2location_BETWEEN L ipInteger (ip2location db) of
        None \<Rightarrow> Inl ErrNoRows
      | Some ip2Loc \<Rightarrow> Inr ip2Loc)"

text \<open>
  \<^verbatim>\<open>indexHandler\<close>, applied to the result of \<^verbatim>\<open>httperror.GetIP(r)\<close>. Next to the response
  the model returns the integers looked up in \<^verbatim>\<open>ip2location\<close>, in the order of the lookups.
\<close>

definition indexHandler ::
  "libs \<Rightarrow> faults \<Rightarrow> database \<Rightarrow> error + string \<Rightarrow> response \<times> 32 word list" where
  "indexHandler L F db getIP =
     (case getIP of
        Inl err \<Rightarrow> (Rendered PageData0, [])
      | Inr ip \<Rightarrow>
          (case isPrivateIP L (net_ParseIP L ip) of
             Inl p \<Rightarrow> (Failed p, [])
           | Inr private \<Rightarrow>
               if private then (Rendered PageData0, [])
               else
                 (case ipToInteger L ip of
                    Inl err \<Rightarrow> (Rendered PageData0, [])
                  | Inr ipInteger \<Rightarrow>
                      (case queryRow_ip2location L F db ipInteger of
                         Inl err \<Rightarrow> (Rendered PageData0, [ipInteger])
                       | Inr ip2Loc \<Rightarrow>
                           (case findNearbyCitiesByLatLng L F db (ip_Lat ip2Loc) (ip_Lng ip2Loc) of
                              Inl err \<Rightarrow>
                                if is_Panic err then (Failed err, [ipInteger])
                                else (Rendered PageData0, [ipInteger])
                            | Inr cs \<Rightarrow>
                                (Rendered (PageData0\<lparr>
                                   FromCity := ip_City ip2Loc @ '', '' @ ip_Country ip2Loc,
                                   NearbyCities := cs\<rparr>), [ipInteger]))))))"

section \<open>The bounding-box request path\<close>

text \<open>
  The query parameters of \<^verbatim>\<open>/v1/cities/nearby\<close> as \<^verbatim>\<open>r.URL.Query().Get\<close> returns them
  (the empty string for a missing parameter), and the handler's local struct \<^verbatim>\<open>city\<close>.
\<close>

record nearby_query =
  q_latitude :: string
  q_longitude :: string
  q_radius :: string

record nearby_city =
  n_Name :: string
  n_Latitude :: real
  n_Longitude :: real
  n_Country :: string
  n_Geohash :: string

datatype http_response = HttpError nat string | HttpOK "nearby_city list"

text \<open>
  \<^verbatim>\<open>SELECT c.city, c.lat, c.lng, c.country, g.geohash FROM cities c JOIN geospatial_index g
  ON g.city_id = c.id WHERE g.geohash BETWEEN ? and ?\<close>; text is compared byte by byte.
\<close>

definition query_BETWEEN ::
  "libs \<Rightarrow> faults \<Rightarrow> database \<Rightarrow> string \<Rightarrow> string \<Rightarrow> error + (cities_row \<times> index_row) list" where
  "query_BETWEEN L F db lo hi =
     (if F F_Between then Inl (ErrDriver ''query'')
      else Inr [(c, g). c \<leftarrow> cities db, g \<leftarrow> geospatial_index db,
                 sqlite_eq L (c_id c) (g_city_id g),
                 lo \<le> g_geohash g \<and> g_geohash g \<le> hi])"

text \<open>The loop \<^verbatim>\<open>for rows.Next() { var c city; rows.Scan(...); cities = append(cities, c) }\<close>.\<close>

fun scanNearby ::
  "libs \<Rightarrow> faults \<Rightarrow> nat \<Rightarrow> (cities_row \<times> index_row) list \<Rightarrow> nearby_city list
     \<Rightarrow> error + nearby_city list" where
  "scanNearby L F k [] cs = Inr cs"
| "scanNearby L F k (cg # rows) cs =
     (if F (F_Scan k) then Inl (ErrDriver ''scan'')
      else case (strconv_ParseFloat L (c_lat (fst cg)), strconv_ParseFloat L (c_lng (fst cg))) of
        (Some la, Some lo) \<Rightarrow>
          scanNearby L F (Suc k) rows
            (cs @ [\<lparr>n_Name = c_city (fst cg), n_Latitude = la, n_Longitude = lo,
                     n_Country = c_country (fst cg), n_Geohash = g_geohash (snd cg)\<rparr>])
      | _ \<Rightarrow> Inl (ErrConvert ''float64''))"

definition nearby :: "libs \<Rightarrow> faults \<Rightarrow> database \<Rightarrow> nearby_query \<Rightarrow> http_response" where
  "nearby L F db q =
     (case strconv_ParseFloat L (q_latitude q) of
        None \<Rightarrow> HttpError 400 ''Invalid latitude parameter''
      | Some lat \<Rightarrow>
     (case strconv_ParseFloat L (q_longitude q) of
        None \<Rightarrow> HttpError 400 ''Invalid longitude parameter''
      | Some lng \<Rightarrow>
     (case strconv_ParseFloat L (q_radius q) of
        None \<Rightarrow> HttpError 400 ''Invalid radius parameter''
      | Some radius \<Rightarrow>
     (case geohash_BoundingBox L lat lng radius of
        (minLat, maxLat, minLng, maxLng) \<Rightarrow>
          (let swGeohash = geohash_Encode L minLat minLng;
               neGeohash = geohash_Encode L maxLat maxLng
           in case query_BETWEEN L F db swGeohash neGeohash of
                Inl err \<Rightarrow> HttpError 500 ''Database query error''
              | Inr rows \<Rightarrow>
                  (case scanNearby L F 0 (fst (rows_Next F 0 rows)) [] of
                     Inl err \<Rightarrow> HttpError 500 ''Error scanning database rows''
                   | Inr cs \<Rightarrow>
                       if F F_Marshal then HttpError 500 ''Error marshaling JSON response''
                       else HttpOK cs))))))"

section \<open>The index builder\<close>

text \<open>
  A transaction of \<^verbatim>\<open>database/sql\<close>: statements executed through it change the state the
  transaction works on; \<^verbatim>\<open>Commit\<close> makes that state the database, \<^verbatim>\<open>Rollback\<close> restores
  the state at \<^verbatim>\<open>Begin\<close>. Once either has been called the transaction is finished and a
  later \<^verbatim>\<open>Rollback\<close> does nothing. A \<^verbatim>\<open>Commit\<close> that fails leaves nothing behind.
\<close>

record tx =
  snapshot :: database
  working :: database
  finished :: bool

definition db_Begin :: "faults \<Rightarrow> database \<Rightarrow> error + tx" where
  "db_Begin F db =
     (if F F_Begin then Inl (ErrDriver ''begin'')
      else Inr \<lparr>snapshot = db, working = db, finished = False\<rparr>)"

definition tx_Rollback :: "tx \<Rightarrow> tx" where
  "tx_Rollback t = (if finished t then t else t\<lparr>working := snapshot t, finished := True\<rparr>)"

definition tx_Commit :: "faults \<Rightarrow> tx \<Rightarrow> error option \<times> tx" where
  "tx_Commit F t =
     (if F F_Commit then (Some (ErrDriver ''commit''), t\<lparr>working := snapshot t, finished := True\<rparr>)
      else (None, t\<lparr>finished := True\<rparr>))"

definition marker :: string where
  "marker = ''cities_table''"

text \<open>
  \<^verbatim>\<open>tx.Exec(`INSERT INTO geospatial_index (geohash, city_id) VALUES (?, ?)`, gh, id)\<close>;
  \<^verbatim>\<open>city_id\<close> is declared UNIQUE.
\<close>

definition tx_Exec_insert :: "faults \<Rightarrow> nat \<Rightarrow> tx \<Rightarrow> string \<Rightarrow> int \<Rightarrow> error + tx" where
  "tx_Exec_insert F k t gh id' =
     (if F (F_Insert k) then Inl (ErrDriver ''insert'')
      else if id' \<in> set (map g_city_id (geospatial_index (working t)))
        then Inl (ErrConstraint ''UNIQUE constraint failed: geospatial_index.city_id'')
      else Inr (t\<lparr>working := (working t)\<lparr>geospatial_index :=
                  geospatial_index (working t) @ [\<lparr>g_geohash = gh, g_city_id = id'\<rparr>]\<rparr>\<rparr>))"

text \<open>
  \<^verbatim>\<open>tx.Exec("INSERT INTO migrations (name) VALUES ('cities_table')")\<close>; \<^verbatim>\<open>name\<close> is the
  primary key.
\<close>

definition tx_Exec_mark :: "faults \<Rightarrow> tx \<Rightarrow> error + tx" where
  "tx_Exec_mark F t =
     (if F F_Mark then Inl (ErrDriver ''insert'')
      else if marker \<in> set (migrations (working t))
        then Inl (ErrConstraint ''UNIQUE constraint failed: migrations.name'')
      else Inr (t\<lparr>working := (working t)\<lparr>migrations := migrations (working t) @ [marker]\<rparr>\<rparr>))"

text \<open>
  The loop over \<^verbatim>\<open>SELECT id, lat, lng FROM cities\<close>: scan a row into an \<^verbatim>\<open>int\<close> and two
  \<^verbatim>\<open>float64\<close>, encode, insert. The transaction is returned as far as it got.
\<close>

fun insertRows :: "libs \<Rightarrow> faults \<Rightarrow> nat \<Rightarrow> cities_row list \<Rightarrow> tx \<Rightarrow> error option \<times> tx" where
  "insertRows L F k [] t = (None, t)"
| "insertRows L F k (r # rows) t =
     (if F (F_Scan k) then (Some (Errorf ''error scanning'' (ErrDriver ''scan'')), t)
      else case (strconv_ParseInt L (c_id r), strconv_ParseFloat L (c_lat r),
                 strconv_ParseFloat L (c_lng r)) of
        (Some id', Some lat, Some lng) \<Rightarrow>
          (let gh = geohash_Encode L lat lng
           in case tx_Exec_insert F k t gh id' of
                Inl err \<Rightarrow> (Some (Errorf ''error inserting into geospatial_index'' err), t)
              | Inr t' \<Rightarrow> insertRows L F (Suc k) rows t')
      | _ \<Rightarrow> (Some (Errorf ''error scanning'' (ErrConvert ''number'')), t))"

text \<open>
  From \<^verbatim>\<open>tx.Query\<close> to \<^verbatim>\<open>tx.Commit\<close>: the part of the builder that runs between
  \<^verbatim>\<open>defer tx.Rollback()\<close> and the return.
\<close>

definition indexRows :: "libs \<Rightarrow> faults \<Rightarrow> tx \<Rightarrow> error option \<times> tx" where
  "indexRows L F t =
     (if F F_SelectCities
        then (Some (Errorf ''error selecting lat, lng from cities table'' (ErrDriver ''query'')), t)
      else case insertRows L F 0 (fst (rows_Next F 0 (cities (working t)))) t of
        (Some err, t') \<Rightarrow> (Some err, t')
      | (None, t') \<Rightarrow>
          if snd (rows_Next F 0 (cities (working t)))
            then (Some (Errorf ''error during iteration'' (ErrDriver ''next'')), t')
          else (case tx_Exec_mark F t' of
                  Inl err \<Rightarrow> (Some (Errorf ''error marking migration as applied'' err), t')
                | Inr t'' \<Rightarrow>
                    (case tx_Commit F t'' of
                       (Some err, t3) \<Rightarrow> (Some (Errorf ''error committing transaction'' err), t3)
                     | (None, t3) \<Rightarrow> (None, t3))))"

text \<open>
  \<^verbatim>\<open>tx, err := db.Begin(); ...; defer tx.Rollback(); ...\<close>: whatever the rest returns, the
  deferred \<^verbatim>\<open>Rollback\<close> runs before the builder does.
\<close>

definition buildIndex :: "libs \<Rightarrow> faults \<Rightarrow> database \<Rightarrow> error option \<times> database" where
  "buildIndex L F db =
     (case db_Begin F db of
        Inl err \<Rightarrow> (Some (Errorf ''error starting transaction'' err), db)
      | Inr t \<Rightarrow>
          (case indexRows L F t of
             (err, t') \<Rightarrow> (err, working (tx_Rollback t'))))"

text \<open>\<^verbatim>\<open>createSpatialIndex\<close> of \<^verbatim>\<open>main.go\<close>.\<close>

definition createSpatialIndex :: "libs \<Rightarrow> faults \<Rightarrow> database \<Rightarrow> error option \<times> database" where
  "createSpatialIndex L F db =
     (if F F_CreateMigrations
        then (Some (Errorf ''error creating migrations table'' (ErrDriver ''exec'')), db)
      else if F F_CheckMigration
        then (Some (Errorf ''error checking migration status'' (ErrDriver ''query'')), db)
      else
        (let migrationApplied = (marker \<in> set (migrations db))
         in if \<not> migrationApplied then
              (if F F_ImportCities
                 then (Some (Errorf ''error importing CSV data into cities table''
                         (ErrDriver ''sqlite3'')), db)
               else
                 (let db1 = db\<lparr>cities := sqlite_import_cities L (cities db)\<rparr>
                  in if F F_CreateIndex
                       then (Some (Errorf ''error creating goepatial_index table''
                               (ErrDriver ''exec'')), db1)
                     else buildIndex L F db1))
            else (None, db)))"

text \<open>
  \<^verbatim>\<open>prepare\<close> of the variant with IP resolution. \<^verbatim>\<open>CREATE VIRTUAL TABLE cities_fts\<close> has no
  \<^verbatim>\<open>IF NOT EXISTS\<close> and fails on a table left by an earlier run.
\<close>

definition prepare :: "libs \<Rightarrow> faults \<Rightarrow> database \<Rightarrow> error option \<times> database" where
  "prepare L F db =
     (if F F_CreateMigrations
        then (Some (Errorf ''error creating migrations table'' (ErrDriver ''exec'')), db)
      else if F F_CheckMigration
        then (Some (Errorf ''error checking migration status'' (ErrDriver ''query'')), db)
      else
        (let migrationApplied = (marker \<in> set (migrations db))
         in if \<not> migrationApplied then
              (if F F_Download then (Some (ErrDriver ''download''), db)
               else if F F_ImportIP2Location
                 then (Some (Errorf ''error importing CSV data into ip2location table''
                         (ErrDriver ''sqlite3'')), db)
               else
                 (let db1 = db\<lparr>ip2location := sqlite_import_ip2location L (ip2location db)\<rparr>
                  in if F F_CreateTemp
                       then (Some (Errorf ''error creating temp file'' (ErrDriver ''os'')), db1)
                     else if F F_WriteTemp
                       then (Some (Errorf ''error writing the embedded CSV content''
                               (ErrDriver ''os'')), db1)
                     else if F F_CreateIP2Location
                       then (Some (Errorf ''error creating ip2location table''
                               (ErrDriver ''exec'')), db1)
                     else if F F_ImportCities
                       then (Some (Errorf ''error importing CSV data into cities table''
                               (ErrDriver ''sqlite3'')), db1)
                     else
                       (let db2 = db1\<lparr>cities := sqlite_import_cities L (cities db1)\<rparr>
                        in if F F_CreateIndex
                             then (Some (Errorf ''error creating goepatial_index table''
                                     (ErrDriver ''exec'')), db2)
                           else if F F_CreateFts \<or> cities_fts db2 \<noteq> None
                             then (Some (Errorf ''error creating cities_fts table''
                                     (ErrDriver ''exec'')), db2)
                           else if F F_PopulateFts
                             then (Some (Errorf ''error populating the virtual table cities_fts''
                                     (ErrDriver ''exec'')), db2\<lparr>cities_fts := Some []\<rparr>)
                           else buildIndex L F (db2\<lparr>cities_fts := Some (cities db2)\<rparr>))))
            else (None, db)))"

section \<open>Notions used by the theorems\<close>

text \<open>
  The two pages of \<^verbatim>\<open>searchHandler\<close> that carry a message, and the condition under which
  the full-text lookup finds no row: the query runs and matches nothing.
\<close>

definition no_match_page :: PageData where
  "no_match_page = PageData0\<lparr>Message := ''No matching city found.''\<rparr>"

definition oops_page :: PageData where
  "oops_page = PageData0\<lparr>Message := ''Oops! Something went wrong. Please try again later.''\<rparr>"

definition no_row :: "libs \<Rightarrow> faults \<Rightarrow> database \<Rightarrow> string \<Rightarrow> bool" where
  "no_row L F db fromCity =
     (\<not> F F_FtsLookup
      \<and> (case cities_fts db of
            None \<Rightarrow> False
          | Some t \<Rightarrow> fts5_MATCH L (normalizeQuery L fromCity) t = Inr []))"

text \<open>
  The entry of the result that a row of the query gives: the scanned row with its rounded
  distance, provided its coordinates convert.
\<close>

definition candidate :: "libs \<Rightarrow> real \<Rightarrow> real \<Rightarrow> cities_row \<times> index_row \<Rightarrow> city option" where
  "candidate L lat lng cg =
     (case rows_Scan L no_faults 0 cg of Inl err \<Rightarrow> None | Inr t \<Rightarrow> Some (setDistance L lat lng t))"

text \<open>
  \<^verbatim>\<open>sort.Slice\<close> with the comparison of the handlers returns a permutation of the slice in
  which no element is followed by one of smaller distance. The order of elements of equal
  distance is left open.
\<close>

definition sorts :: "libs \<Rightarrow> bool" where
  "sorts L =
     (\<forall>xs. mset (sort_Slice L byDistance xs) = mset xs
          \<and> sorted (map Distance (sort_Slice L byDistance xs)))"

text \<open>
  What \<^verbatim>\<open>sort.Slice\<close> promises for any comparison that meets the requirements of
  \<^verbatim>\<open>sort.Interface\<close> on \<^verbatim>\<open>Less\<close> (nothing sorts before itself, and both \<^verbatim>\<open>Less\<close> and its
  negation are transitive): the result is a permutation of the slice in which no element
  sorts before an earlier one. Nothing is promised about elements that compare equal.
\<close>

definition Less_ok :: "(city \<Rightarrow> city \<Rightarrow> bool) \<Rightarrow> bool" where
  "Less_ok lt =
     ((\<forall>a. \<not> lt a a) \<and> (\<forall>a b c. lt a b \<and> lt b c \<longrightarrow> lt a c)
      \<and> (\<forall>a b c. \<not> lt a b \<and> \<not> lt b c \<longrightarrow> \<not> lt a c))"

definition sort_Slice_contract :: "libs \<Rightarrow> bool" where
  "sort_Slice_contract L =
     (\<forall>lt xs. Less_ok lt \<longrightarrow>
        mset (sort_Slice L lt xs) = mset xs
        \<and> sorted_wrt (\<lambda>a b. \<not> lt b a) (sort_Slice L lt xs))"

text \<open>
  The rows that the cursor of \<^verbatim>\<open>findNearbyCitiesByLatLng\<close> hands to the loop, in their
  order.
\<close>

definition delivered ::
  "libs \<Rightarrow> faults \<Rightarrow> database \<Rightarrow> real \<Rightarrow> real \<Rightarrow> (cities_row \<times> index_row) list" where
  "delivered L F db lat lng =
     (case query_LIKE L F db
             (take (nat (geohash_EstimateLengthRequired L 100)) (geohash_Encode L lat lng) @ ''%'') of
        Inl err \<Rightarrow> []
      | Inr rows \<Rightarrow> fst (rows_Next F 0 rows))"

text \<open>Keys are written in the geohash alphabet, by the encoder and hence in the index.\<close>

definition encodes_geokeys :: "libs \<Rightarrow> bool" where
  "encodes_geokeys L = (\<forall>lat lng. geokey (geohash_Encode L lat lng))"

definition index_geokeys :: "database \<Rightarrow> bool" where
  "index_geokeys db = list_all (\<lambda>g. geokey (g_geohash g)) (geospatial_index db)"

text \<open>\<^verbatim>\<open>net.ParseIP\<close> on the six literals of \<^verbatim>\<open>isPrivateIP\<close>.\<close>

definition parses_ranges :: "libs \<Rightarrow> bool" where
  "parses_ranges L =
     (net_ParseIP L ''10.0.0.0'' = IPv4 10 0 0 0
      \<and> net_ParseIP L ''10.255.255.255'' = IPv4 10 255 255 255
      \<and> net_ParseIP L ''172.16.0.0'' = IPv4 172 16 0 0
      \<and> net_ParseIP L ''172.31.255.255'' = IPv4 172 31 255 255
      \<and> net_ParseIP L ''192.168.0.0'' = IPv4 192 168 0 0
      \<and> net_ParseIP L ''192.168.255.255'' = IPv4 192 168 255 255)"

text \<open>The three private ranges, on the four bytes of an address.\<close>

definition private_range :: "8 word \<Rightarrow> 8 word \<Rightarrow> bool" where
  "private_range a b = (a = 10 \<or> (a = 172 \<and> 16 \<le> b \<and> b \<le> 31) \<or> (a = 192 \<and> b = 168))"

text \<open>
  The index entry the builder writes for a row of \<^verbatim>\<open>cities\<close> whose identifier and
  coordinates convert, and the two outcomes a build may have: on an error the index and the
  migrations are those of the start; on success, with the marker absent at the start, the
  marker is added and the index is extended by exactly one entry for each city, in order.
\<close>

definition indexEntry :: "libs \<Rightarrow> cities_row \<Rightarrow> index_row option" where
  "indexEntry L r =
     (case (strconv_ParseInt L (c_id r), strconv_ParseFloat L (c_lat r),
            strconv_ParseFloat L (c_lng r)) of
        (Some id', Some lat, Some lng) \<Rightarrow>
          Some \<lparr>g_geohash = geohash_Encode L lat lng, g_city_id = id'\<rparr>
      | _ \<Rightarrow> None)"

definition all_or_nothing :: "libs \<Rightarrow> database \<Rightarrow> error option \<times> database \<Rightarrow> bool" where
  "all_or_nothing L db r =
     (case fst r of
        Some err \<Rightarrow>
          geospatial_index (snd r) = geospatial_index db \<and> migrations (snd r) = migrations db
      | None \<Rightarrow>
          if marker \<in> set (migrations db) then snd r = db
          else migrations (snd r) = migrations db @ [marker]
             \<and> take (length (geospatial_index db)) (geospatial_index (snd r)) = geospatial_index db
             \<and> map Some (drop (length (geospatial_index db)) (geospatial_index (snd r)))
                 = map (indexEntry L) (cities (snd r)))"

section \<open>A small instance\<close>

text \<open>
  Four cities of the data set, three of them with the keys listed in the README, and
  collaborators that are tables on the values this instance needs. The key length 3 for a
  radius of 100 km is an assumption of the instance only.
\<close>

fun insertLess :: "('a \<Rightarrow> 'a \<Rightarrow> bool) \<Rightarrow> 'a \<Rightarrow> 'a list \<Rightarrow> 'a list" where
  "insertLess lt x [] = [x]"
| "insertLess lt x (y # ys) = (if lt y x then y # insertLess lt x ys else x # y # ys)"

definition insertionSort :: "('a \<Rightarrow> 'a \<Rightarrow> bool) \<Rightarrow> 'a list \<Rightarrow> 'a list" where
  "insertionSort lt xs = foldr (insertLess lt) xs []"

text \<open>The environment that makes exactly one call fail.\<close>

definition fail_at :: "fault_point \<Rightarrow> faults" where
  "fail_at p = (\<lambda>q. q = p)"

definition ex_floats :: "(string \<times> real) list" where
  "ex_floats =
     [(''21.0283'', 21.0283), (''105.8542'', 105.8542), (''20.8651'', 20.8651),
      (''106.6838'', 106.6838), (''21.1833'', 21.1833), (''106.05'', 106.05),
      (''19.8075'', 19.8075), (''105.7764'', 105.7764),
      (''200'', 200), (''105.8342'', 105.8342), (''100'', 100)]"

definition ex_keys :: "((real \<times> real) \<times> string) list" where
  "ex_keys =
     [((21.0283, 105.8542), ''w7er8u0dtxhr''), ((20.8651, 106.6838), ''w7eyewku08wc''),
      ((21.1833, 106.05), ''w7g2t0r38j76''), ((19.8075, 105.7764), ''w7e0xjb50c87'')]"

definition ex_distances :: "((real \<times> real) \<times> real) list" where
  "ex_distances =
     [((21.0283, 105.8542), 0), ((20.8651, 106.6838), 88.0414),
      ((21.1833, 106.05), 26.6384), ((19.8075, 105.7764), 135.9886)]"

definition ex_addresses :: "(string \<times> IP) list" where
  "ex_addresses =
     [(''10.0.0.0'', IPv4 10 0 0 0), (''10.255.255.255'', IPv4 10 255 255 255),
      (''172.16.0.0'', IPv4 172 16 0 0), (''172.31.255.255'', IPv4 172 31 255 255),
      (''192.168.0.0'', IPv4 192 168 0 0), (''192.168.255.255'', IPv4 192 168 255 255),
      (''192.168.1.1'', IPv4 192 168 1 1), (''8.8.8.8'', IPv4 8 8 8 8),
      (''2001:db8::1'', [0x20, 0x01, 0x0d, 0xb8, 0, 0, 0, 0, 0, 0, 0, 0, 0, 0, 0, 1])]"

definition ex_libs :: libs where
  "ex_libs = \<lparr>
     geohash_Encode = (\<lambda>lat lng. case map_of ex_keys (lat, lng) of
                          Some k \<Rightarrow> k | None \<Rightarrow> ''s00000000000''),
     geohash_EstimateLengthRequired = (\<lambda>radius. 3),
     geohash_Distance = (\<lambda>lat1 lng1 lat2 lng2. case map_of ex_distances (lat2, lng2) of
                            Some d \<Rightarrow> d | None \<Rightarrow> 0),
     geohash_BoundingBox = (\<lambda>lat lng radius.
        (lat - radius / 111.32, lat + radius / 111.32,
         lng - radius / 111.32, lng + radius / 111.32)),
     sort_Slice = insertionSort,
     strconv_ParseFloat = map_of ex_floats,
     strconv_ParseInt = map_of [(''1'', 1), (''2'', 2), (''3'', 3), (''4'', 4)],
     net_ParseIP = (\<lambda>s. case map_of ex_addresses s of Some ip \<Rightarrow> ip | None \<Rightarrow> []),
     unicode_P = (\<lambda>c. c \<in> set ''!,.;:?''),
     fts5_MATCH = (\<lambda>q t. Inr (filter (\<lambda>r. c_city r = q) t)),
     ip2location_BETWEEN = (\<lambda>ip t. None),
     sqlite_eq = (\<lambda>t i. map_of [(''1'', 1), (''2'', 2), (''3'', 3), (''4'', 4)] t = Some i),
     sqlite_import_cities = (\<lambda>t. t),
     sqlite_import_ip2location = (\<lambda>t. t)\<rparr>"

definition ex_row :: "string \<Rightarrow> string \<Rightarrow> string \<Rightarrow> string \<Rightarrow> cities_row" where
  "ex_row name la lo i =
     \<lparr>c_city = name, c_city_ascii = name, c_lat = la, c_lng = lo, c_country = ''Vietnam'',
      c_iso2 = ''VN'', c_iso3 = ''VNM'', c_admin_name = [], c_capital = [],
      c_population = [], c_id = i\<rparr>"

definition ex_cities :: "cities_row list" where
  "ex_cities =
     [ex_row ''Hanoi'' ''21.0283'' ''105.8542'' ''1'',
      ex_row ''Haiphong'' ''20.8651'' ''106.6838'' ''2'',
      ex_row ''Bac Ninh'' ''21.1833'' ''106.05'' ''3'',
      ex_row ''Thanh Hoa'' ''19.8075'' ''105.7764'' ''4'']"

definition ex_index :: "index_row list" where
  "ex_index =
     [\<lparr>g_geohash = ''w7er8u0dtxhr'', g_city_id = 1\<rparr>,
      \<lparr>g_geohash = ''w7eyewku08wc'', g_city_id = 2\<rparr>,
      \<lparr>g_geohash = ''w7g2t0r38j76'', g_city_id = 3\<rparr>,
      \<lparr>g_geohash = ''w7e0xjb50c87'', g_city_id = 4\<rparr>]"

text \<open>The database before the first start (the CSV already imported) and after it.\<close>

definition ex_fresh :: database where
  "ex_fresh = \<lparr>migrations = [], cities = ex_cities, geospatial_index = [],
                cities_fts = None, ip2location = []\<rparr>"

definition ex_built :: database where
  "ex_built = \<lparr>migrations = [marker], cities = ex_cities, geospatial_index = ex_index,
                cities_fts = Some ex_cities, ip2location = []\<rparr>"

definition ex_result :: "string \<Rightarrow> real \<Rightarrow> real \<Rightarrow> string \<Rightarrow> real \<Rightarrow> city" where
  "ex_result name la lo k d =
     city0\<lparr>City := name, Lat := la, Lng := lo, Country := ''Vietnam'', Geohash := k,
           Distance := float64 d\<rparr>"

text \<open>
  A second instance: three points about a kilometre or less from the reference point
  (21.0283, 105.8542), stored in an order that is not the order of their distances. The
  library's distances for them are taken to be 1.0535, 1.04499999999999993 (the
  \<^verbatim>\<open>float64\<close> just below 1.045) and 0.301.
\<close>

definition near_floats :: "(string \<times> real) list" where
  "near_floats =
     [(''21.0283'', 21.0283), (''105.86435'', 105.86435), (''21.0377'', 21.0377),
      (''105.8542'', 105.8542), (''105.8571'', 105.8571)]"

definition near_distances :: "((real \<times> real) \<times> real) list" where
  "near_distances =
     [((21.0283, 105.86435), 1.0535),
      ((21.0377, 105.8542), 588282701325271 / 562949953421312),
      ((21.0283, 105.8571), 0.301)]"

definition near_libs :: libs where
  "near_libs = ex_libs\<lparr>
     geohash_Distance := (\<lambda>lat1 lng1 lat2 lng2. case map_of near_distances (lat2, lng2) of
                             Some d \<Rightarrow> d | None \<Rightarrow> 0),
     strconv_ParseFloat := map_of near_floats\<rparr>"

definition near_cities :: "cities_row list" where
  "near_cities =
     [ex_row ''Point A'' ''21.0283'' ''105.86435'' ''1'',
      ex_row ''Point B'' ''21.0377'' ''105.8542'' ''2'',
      ex_row ''Point C'' ''21.0283'' ''105.8571'' ''3'']"

definition near_index :: "index_row list" where
  "near_index =
     [\<lparr>g_geohash = ''w7er9h04dphx'', g_city_id = 1\<rparr>,
      \<lparr>g_geohash = ''w7er8vb9mxs2'', g_city_id = 2\<rparr>,
      \<lparr>g_geohash = ''w7er8u4f9pnx'', g_city_id = 3\<rparr>]"

definition near_built :: database where
  "near_built = \<lparr>migrations = [marker], cities = near_cities, geospatial_index = near_index,
                  cities_fts = Some near_cities, ip2location = []\<rparr>"

section \<open>Lemmas about the storage engine and the loops\<close>


lemma base32_lower: "c \<in> set base32 \<Longrightarrow> ascii_lower c = c"
  by (auto simp: base32_def ascii_lower_def)

lemma base32_not_wild: "c \<in> set base32 \<Longrightarrow> c \<noteq> CHR ''%'' \<and> c \<noteq> CHR ''_''"
  by (auto simp: base32_def)

lemma like_percent: "sqlite_like ''%'' k"
  by (induction k) auto

lemma like_skip: "sqlite_like ps k \<Longrightarrow> sqlite_like (CHR ''%'' # ps) k"
  by (cases k) auto

lemma prefix_like: "prefix p k \<Longrightarrow> sqlite_like (p @ ''%'') k"
proof (induction p arbitrary: k)
  case Nil
  then show ?case using like_percent by simp
next
  case (Cons a p)
  then obtain ks where k: "k = a # ks" and pk: "prefix p ks"
    by (cases k) auto
  from Cons.IH [OF pk] have "sqlite_like (p @ ''%'') ks" .
  then show ?case using k like_skip [of "p @ ''%''" ks] by auto
qed

lemma like_prefix:
  "geokey p \<Longrightarrow> geokey k \<Longrightarrow> sqlite_like (p @ ''%'') k \<Longrightarrow> prefix p k"
proof (induction p arbitrary: k)
  case Nil
  then show ?case by simp
next
  case (Cons a p)
  show ?case
  proof (cases k)
    case Nil
    then show ?thesis using Cons.prems base32_not_wild [of a] by (simp add: geokey_def)
  next
    case (Cons c cs)
    then show ?thesis
      using Cons.prems Cons.IH [of cs] base32_not_wild [of a] base32_lower [of a] base32_lower [of c]
      by (auto simp: geokey_def)
  qed
qed




lemma geokey_take: "geokey k \<Longrightarrow> geokey (take n k)"
  unfolding geokey_def list_all_iff by (auto dest: in_set_takeD)

lemma rows_Next_subset: "set (fst (rows_Next F k rs)) \<subseteq> set rs"
  by (induction rs arbitrary: k) auto

lemma rows_Next_all: "\<forall>k. \<not> F (F_Next k) \<Longrightarrow> rows_Next F k rs = (rs, False)"
  by (induction rs arbitrary: k) auto

lemma rows_Scan_no_faults: "rows_Scan L F k cg = Inr t \<Longrightarrow> rows_Scan L no_faults 0 cg = Inr t"
  by (auto simp: rows_Scan_def no_faults_def split: if_splits)

lemma scanRows_Inr:
  "scanRows L F lat lng k rows acc = Inr cs \<Longrightarrow>
     map Some cs = map Some acc @ map (candidate L lat lng) rows"
proof (induction rows arbitrary: k acc)
  case Nil
  then show ?case by simp
next
  case (Cons cg rows)
  then obtain t where t: "rows_Scan L F k cg = Inr t"
    and rest: "scanRows L F lat lng (Suc k) rows (acc @ [setDistance L lat lng t]) = Inr cs"
    by (auto split: sum.splits)
  from rows_Scan_no_faults [OF t] have "candidate L lat lng cg = Some (setDistance L lat lng t)"
    by (simp add: candidate_def)
  with Cons.IH [OF rest] show ?case by simp
qed

lemma candidate_fields:
  "candidate L lat lng cg = Some r \<Longrightarrow>
     City r = c_city (fst cg) \<and> Geohash r = g_geohash (snd cg)
     \<and> AdminName r = c_admin_name (fst cg) \<and> Country r = c_country (fst cg)
     \<and> strconv_ParseFloat L (c_lat (fst cg)) = Some (Lat r)
     \<and> strconv_ParseFloat L (c_lng (fst cg)) = Some (Lng r)
     \<and> Distance r
         = float64 (math_Round (float64 (geohash_Distance L lat lng (Lat r) (Lng r) * 100)) / 100)"
  by (auto simp: candidate_def rows_Scan_def setDistance_def no_faults_def city0_def
           split: sum.splits option.splits)

lemma map_Some_set: "map Some cs = map f rows \<Longrightarrow> r \<in> set cs \<Longrightarrow> \<exists>x\<in>set rows. f x = Some r"
proof -
  assume a: "map Some cs = map f rows" and b: "r \<in> set cs"
  then have "Some r \<in> set (map f rows)" by (metis image_eqI list.set_map)
  then show ?thesis by auto
qed

lemma map_Some_set2: "map Some cs = map f rows \<Longrightarrow> x \<in> set rows \<Longrightarrow> \<exists>r\<in>set cs. f x = Some r"
proof -
  assume a: "map Some cs = map f rows" and b: "x \<in> set rows"
  then have "f x \<in> set (map Some cs)" by (metis image_eqI list.set_map)
  then show ?thesis by auto
qed

lemma sorts_set: "sorts L \<Longrightarrow> set (sort_Slice L byDistance xs) = set xs"
  unfolding sorts_def by (metis set_mset_mset)

lemma sorts_length: "sorts L \<Longrightarrow> length (sort_Slice L byDistance xs) = length xs"
  unfolding sorts_def by (metis size_mset)

lemma findNearby_Inr:
  assumes "findNearbyCitiesByLatLng L F db lat lng = Inr cs"
  obtains rows cs0 where
    "0 \<le> geohash_EstimateLengthRequired L 100"
    "geohash_EstimateLengthRequired L 100 \<le> int (length (geohash_Encode L lat lng))"
    "query_LIKE L F db (take (nat (geohash_EstimateLengthRequired L 100)) (geohash_Encode L lat lng) @ ''%'') = Inr rows"
    "scanRows L F lat lng 0 (fst (rows_Next F 0 rows)) [] = Inr cs0"
    "cs = sort_Slice L byDistance cs0"
  using assms unfolding findNearbyCitiesByLatLng_def Let_def
  by (auto split: if_splits sum.splits)


lemma query_LIKE_set:
  "query_LIKE L F db pat = Inr rows \<Longrightarrow>
     set rows = {(c, g). c \<in> set (cities db) \<and> g \<in> set (geospatial_index db)
                  \<and> sqlite_eq L (c_id c) (g_city_id g)
                  \<and> sqlite_like pat (g_geohash g)}"
  by (auto simp: query_LIKE_def split: if_splits)

lemma mset_insertLess: "mset (insertLess lt x ys) = add_mset x (mset ys)"
  by (induction ys) auto

lemma mset_insertionSort: "mset (insertionSort lt xs) = mset xs"
  unfolding insertionSort_def by (induction xs) (auto simp: mset_insertLess)

lemma set_insertLess: "set (insertLess lt x ys) = insert x (set ys)"
  by (induction ys) auto

lemma sorted_insertLess:
  "sorted (map Distance ys) \<Longrightarrow> sorted (map Distance (insertLess byDistance x ys))"
  by (induction ys) (auto simp: set_insertLess byDistance_def)

lemma sorted_insertionSort: "sorted (map Distance (insertionSort byDistance xs))"
  unfolding insertionSort_def by (induction xs) (auto simp: sorted_insertLess)

lemma ex_sorts: "sorts ex_libs"
  by (simp add: sorts_def ex_libs_def mset_insertionSort sorted_insertionSort)

lemma ex_encodes: "encodes_geokeys ex_libs"
  by (auto simp: encodes_geokeys_def ex_libs_def ex_keys_def geokey_def base32_def)

lemma ex_index_geokeys: "index_geokeys ex_built"
  by (simp add: index_geokeys_def ex_built_def ex_index_def geokey_def base32_def)

section \<open>The proximity query: prefix, order, rounding, completeness\<close>

lemmas float_defs = float64_def round_half_even_def pow2_def

lemmas ex_defs = ex_libs_def ex_built_def ex_fresh_def ex_result_def ex_cities_def ex_index_def
  ex_row_def ex_keys_def ex_floats_def ex_distances_def ex_addresses_def no_faults_def city0_def

lemma ex_run:
  "findNearbyCitiesByLatLng ex_libs no_faults ex_built 21.0283 105.8542 =
     Inr [ex_result ''Hanoi'' 21.0283 105.8542 ''w7er8u0dtxhr'' 0,
          ex_result ''Haiphong'' 20.8651 106.6838 ''w7eyewku08wc'' 88.04,
          ex_result ''Thanh Hoa'' 19.8075 105.7764 ''w7e0xjb50c87'' 135.99]"
  by (simp add: findNearbyCitiesByLatLng_def query_LIKE_def rows_Scan_def setDistance_def
        math_Round_def byDistance_def insertionSort_def ascii_lower_def ex_defs float_defs)

text \<open>
  Claim C1. The query computes the prefix as the key of the reference point cut to the
  estimated length, and every entry that \<^verbatim>\<open>findNearbyCitiesByLatLng\<close> returns carries a key
  that literally starts with that prefix. The match is made by the storage engine's
  \<^verbatim>\<open>LIKE\<close>, which folds case and knows wildcards; it is a literal prefix match because
  keys are written in the geohash alphabet.
\<close>

theorem candidates_share_prefix:
  assumes "sorts L" and "encodes_geokeys L" and "index_geokeys db"
    and "findNearbyCitiesByLatLng L F db lat lng = Inr cs"
  shows "length (take (nat (geohash_EstimateLengthRequired L 100)) (geohash_Encode L lat lng))
           = nat (geohash_EstimateLengthRequired L 100)
         \<and> (\<forall>c\<in>set cs.
           prefix (take (nat (geohash_EstimateLengthRequired L 100)) (geohash_Encode L lat lng))
                  (Geohash c))"
proof (intro conjI ballI)
  from assms(4) have "geohash_EstimateLengthRequired L 100 \<le> int (length (geohash_Encode L lat lng))"
    by (rule findNearby_Inr)
  then show "length (take (nat (geohash_EstimateLengthRequired L 100)) (geohash_Encode L lat lng))
           = nat (geohash_EstimateLengthRequired L 100)"
    by simp
next
  fix c assume c: "c \<in> set cs"
  let ?p = "take (nat (geohash_EstimateLengthRequired L 100)) (geohash_Encode L lat lng)"
  from assms(4) obtain rows cs0 where
    q: "query_LIKE L F db (?p @ ''%'') = Inr rows"
    and sc: "scanRows L F lat lng 0 (fst (rows_Next F 0 rows)) [] = Inr cs0"
    and cs: "cs = sort_Slice L byDistance cs0"
    by (rule findNearby_Inr)
  from c cs assms(1) have "c \<in> set cs0" by (simp add: sorts_set)
  with scanRows_Inr [OF sc] obtain cg where
    cg: "cg \<in> set (fst (rows_Next F 0 rows))" and cand: "candidate L lat lng cg = Some c"
    using map_Some_set [of cs0 "candidate L lat lng" "fst (rows_Next F 0 rows)" c] by auto
  from cg rows_Next_subset [of F 0 rows] have "cg \<in> set rows" by auto
  with query_LIKE_set [OF q] have g: "snd cg \<in> set (geospatial_index db)"
    and like: "sqlite_like (?p @ ''%'') (g_geohash (snd cg))"
    by auto
  from g assms(3) have "geokey (g_geohash (snd cg))"
    by (simp add: index_geokeys_def list_all_iff)
  moreover from assms(2) have "geokey ?p"
    by (simp add: encodes_geokeys_def geokey_take)
  ultimately have "prefix ?p (g_geohash (snd cg))"
    using like by (simp add: like_prefix)
  with candidate_fields [OF cand] show "prefix ?p (Geohash c)" by simp
qed

theorem candidates_share_prefix_witness:
  "sorts ex_libs \<and> encodes_geokeys ex_libs \<and> index_geokeys ex_built
   \<and> findNearbyCitiesByLatLng ex_libs no_faults ex_built 21.0283 105.8542 =
       Inr [ex_result ''Hanoi'' 21.0283 105.8542 ''w7er8u0dtxhr'' 0,
            ex_result ''Haiphong'' 20.8651 106.6838 ''w7eyewku08wc'' 88.04,
            ex_result ''Thanh Hoa'' 19.8075 105.7764 ''w7e0xjb50c87'' 135.99]
   \<and> prefix ''w7e'' ''w7er8u0dtxhr'' \<and> prefix ''w7e'' ''w7eyewku08wc''
   \<and> prefix ''w7e'' ''w7e0xjb50c87''"
  using candidates_share_prefix [OF ex_sorts ex_encodes ex_index_geokeys ex_run]
    ex_sorts ex_encodes ex_index_geokeys ex_run
  by (simp add: ex_libs_def ex_keys_def ex_result_def city0_def)

lemmas near_defs = near_libs_def near_built_def near_cities_def near_index_def near_floats_def
  near_distances_def

lemma near_run:
  "findNearbyCitiesByLatLng near_libs no_faults near_built 21.0283 105.8542 =
     Inr [ex_result ''Point C'' 21.0283 105.8571 ''w7er8u4f9pnx'' 0.3,
          ex_result ''Point A'' 21.0283 105.86435 ''w7er9h04dphx'' 1.05,
          ex_result ''Point B'' 21.0377 105.8542 ''w7er8vb9mxs2'' 1.05]"
  by (simp add: findNearbyCitiesByLatLng_def query_LIKE_def rows_Scan_def setDistance_def
        math_Round_def byDistance_def insertionSort_def ascii_lower_def near_defs ex_defs
        float_defs)

lemma near_delivered:
  "delivered near_libs no_faults near_built 21.0283 105.8542 = zip near_cities near_index"
  by (simp add: delivered_def query_LIKE_def ascii_lower_def near_defs ex_defs)

lemma Less_ok_byDistance: "Less_ok byDistance"
  by (auto simp: Less_ok_def byDistance_def)

lemma sorted_wrt_insertLess:
  assumes "Less_ok lt" and "sorted_wrt (\<lambda>a b. \<not> lt b a) ys"
  shows "sorted_wrt (\<lambda>a b. \<not> lt b a) (insertLess lt x ys)"
  using assms(2)
proof (induction ys)
  case Nil
  show ?case by simp
next
  case (Cons y ys)
  from Cons.prems have tail: "sorted_wrt (\<lambda>a b. \<not> lt b a) ys"
    and after: "\<forall>z\<in>set ys. \<not> lt z y"
    by simp_all
  show ?case
  proof (cases "lt y x")
    case True
    from assms(1) True have "\<not> lt x y"
      unfolding Less_ok_def by blast
    with after have "\<forall>z\<in>set (insertLess lt x ys). \<not> lt z y"
      by (simp add: set_insertLess)
    with True Cons.IH [OF tail] show ?thesis by simp
  next
    case False
    have "\<not> lt z x" if "z \<in> set ys" for z
    proof -
      from that after have "\<not> lt z y" by blast
      with False assms(1) show ?thesis
        unfolding Less_ok_def by blast
    qed
    with False Cons.prems show ?thesis by simp
  qed
qed

lemma sorted_wrt_insertionSort:
  "Less_ok lt \<Longrightarrow> sorted_wrt (\<lambda>a b. \<not> lt b a) (insertionSort lt xs)"
  unfolding insertionSort_def by (induction xs) (simp_all add: sorted_wrt_insertLess)

lemma near_contract: "sort_Slice_contract near_libs"
  by (simp add: sort_Slice_contract_def near_libs_def ex_libs_def mset_insertionSort
        sorted_wrt_insertionSort)


text \<open>
  Claim C2. A successful query returns its entries in ascending order of the field
  \<^verbatim>\<open>Distance\<close>: the comparison handed to \<^verbatim>\<open>sort.Slice\<close> is \<^verbatim>\<open>Distance <\<close>, which meets the
  requirements on \<^verbatim>\<open>Less\<close>. The order is reproducible, ties included: two runs with the same
  reference point whose cursors deliver the same rows in the same order return the same
  sequence.
\<close>

theorem results_sorted_by_distance:
  assumes "sort_Slice_contract L" and "findNearbyCitiesByLatLng L F db lat lng = Inr cs"
  shows "sorted (map Distance cs)
         \<and> (findNearbyCitiesByLatLng L F' db' lat lng = Inr cs'
              \<and> delivered L F' db' lat lng = delivered L F db lat lng \<longrightarrow> cs' = cs)"
proof
  from assms(2) obtain rows cs0 where
    q: "query_LIKE L F db
          (take (nat (geohash_EstimateLengthRequired L 100)) (geohash_Encode L lat lng) @ ''%'')
        = Inr rows"
    and sc: "scanRows L F lat lng 0 (fst (rows_Next F 0 rows)) [] = Inr cs0"
    and cs: "cs = sort_Slice L byDistance cs0"
    by (rule findNearby_Inr)
  from assms(1) Less_ok_byDistance
  have "sorted_wrt (\<lambda>a b. \<not> byDistance b a) (sort_Slice L byDistance cs0)"
    by (simp add: sort_Slice_contract_def)
  then have "sorted_wrt (\<lambda>a b. Distance a \<le> Distance b) cs"
    by (simp add: cs byDistance_def not_less)
  then show "sorted (map Distance cs)" by (simp add: sorted_map)
  show "findNearbyCitiesByLatLng L F' db' lat lng = Inr cs'
          \<and> delivered L F' db' lat lng = delivered L F db lat lng \<longrightarrow> cs' = cs"
  proof
    assume a: "findNearbyCitiesByLatLng L F' db' lat lng = Inr cs'
          \<and> delivered L F' db' lat lng = delivered L F db lat lng"
    then obtain rows' cs0' where
      q': "query_LIKE L F' db'
            (take (nat (geohash_EstimateLengthRequired L 100)) (geohash_Encode L lat lng) @ ''%'')
          = Inr rows'"
      and sc': "scanRows L F' lat lng 0 (fst (rows_Next F' 0 rows')) [] = Inr cs0'"
      and cs': "cs' = sort_Slice L byDistance cs0'"
      using findNearby_Inr [of L F' db' lat lng cs'] by blast
    from a q q' have "fst (rows_Next F' 0 rows') = fst (rows_Next F 0 rows)"
      by (simp add: delivered_def)
    with scanRows_Inr [OF sc] scanRows_Inr [OF sc'] have "map Some cs0' = map Some cs0"
      by simp
    then have "cs0' = cs0" by (simp add: inj_map_eq_map)
    with cs cs' show "cs' = cs" by simp
  qed
qed

theorem results_sorted_by_distance_witness:
  "sort_Slice_contract near_libs
   \<and> delivered near_libs no_faults near_built 21.0283 105.8542 = zip near_cities near_index
   \<and> findNearbyCitiesByLatLng near_libs no_faults near_built 21.0283 105.8542 =
       Inr [ex_result ''Point C'' 21.0283 105.8571 ''w7er8u4f9pnx'' 0.3,
            ex_result ''Point A'' 21.0283 105.86435 ''w7er9h04dphx'' 1.05,
            ex_result ''Point B'' 21.0377 105.8542 ''w7er8vb9mxs2'' 1.05]
   \<and> Distance (ex_result ''Point C'' 21.0283 105.8571 ''w7er8u4f9pnx'' 0.3)
       < Distance (ex_result ''Point A'' 21.0283 105.86435 ''w7er9h04dphx'' 1.05)
   \<and> Distance (ex_result ''Point A'' 21.0283 105.86435 ''w7er9h04dphx'' 1.05)
       = Distance (ex_result ''Point B'' 21.0377 105.8542 ''w7er8vb9mxs2'' 1.05)
   \<and> delivered near_libs (fail_at F_FtsLookup) (near_built\<lparr>cities_fts := None\<rparr>)
         21.0283 105.8542 = zip near_cities near_index
   \<and> findNearbyCitiesByLatLng near_libs (fail_at F_FtsLookup)
         (near_built\<lparr>cities_fts := None\<rparr>) 21.0283 105.8542 =
       Inr [ex_result ''Point C'' 21.0283 105.8571 ''w7er8u4f9pnx'' 0.3,
            ex_result ''Point A'' 21.0283 105.86435 ''w7er9h04dphx'' 1.05,
            ex_result ''Point B'' 21.0377 105.8542 ''w7er8vb9mxs2'' 1.05]"
proof -
  have d': "delivered near_libs (fail_at F_FtsLookup) (near_built\<lparr>cities_fts := None\<rparr>)
         21.0283 105.8542 = zip near_cities near_index"
    by (simp add: delivered_def query_LIKE_def ascii_lower_def fail_at_def near_defs ex_defs)
  have r': "findNearbyCitiesByLatLng near_libs (fail_at F_FtsLookup)
         (near_built\<lparr>cities_fts := None\<rparr>) 21.0283 105.8542 =
       Inr [ex_result ''Point C'' 21.0283 105.8571 ''w7er8u4f9pnx'' 0.3,
            ex_result ''Point A'' 21.0283 105.86435 ''w7er9h04dphx'' 1.05,
            ex_result ''Point B'' 21.0377 105.8542 ''w7er8vb9mxs2'' 1.05]"
    by (simp add: findNearbyCitiesByLatLng_def query_LIKE_def rows_Scan_def setDistance_def
          math_Round_def byDistance_def insertionSort_def ascii_lower_def fail_at_def near_defs
          ex_defs float_defs)
  have lt: "Distance (ex_result ''Point C'' 21.0283 105.8571 ''w7er8u4f9pnx'' 0.3)
       < Distance (ex_result ''Point A'' 21.0283 105.86435 ''w7er9h04dphx'' 1.05)"
    by (simp add: ex_result_def city0_def float_defs)
  show ?thesis
    using results_sorted_by_distance [OF near_contract near_run,
        of "fail_at F_FtsLookup" "near_built\<lparr>cities_fts := None\<rparr>"]
      near_contract near_delivered near_run d' r' lt
    by (simp add: ex_result_def city0_def)
qed



text \<open>
  Claim C3 says that every candidate whose key matches the prefix appears in the result.
  The loop of \<^verbatim>\<open>findNearbyCitiesByLatLng\<close> ends when \<^verbatim>\<open>rows.Next()\<close> returns false and never
  asks \<^verbatim>\<open>rows.Err()\<close> why, as the loop of the index builder does. When the cursor fails
  after the first row, the query returns that row alone as a success, and the candidate
  Haiphong, whose key starts with the prefix, is missing.
\<close>

theorem cursor_failure_drops_candidates:
  "findNearbyCitiesByLatLng ex_libs (fail_at (F_Next 1)) ex_built 21.0283 105.8542 =
     Inr [ex_result ''Hanoi'' 21.0283 105.8542 ''w7er8u0dtxhr'' 0]
   \<and> ex_row ''Haiphong'' ''20.8651'' ''106.6838'' ''2'' \<in> set (cities ex_built)
   \<and> \<lparr>g_geohash = ''w7eyewku08wc'', g_city_id = 2\<rparr> \<in> set (geospatial_index ex_built)
   \<and> sqlite_eq ex_libs ''2'' 2
   \<and> take (nat (geohash_EstimateLengthRequired ex_libs 100))
        (geohash_Encode ex_libs 21.0283 105.8542) = ''w7e''
   \<and> prefix ''w7e'' ''w7eyewku08wc''"
  by (simp add: findNearbyCitiesByLatLng_def query_LIKE_def rows_Scan_def setDistance_def
        math_Round_def byDistance_def insertionSort_def ascii_lower_def fail_at_def ex_defs
        float_defs)

text \<open>
  With a cursor that hands out every row the query does return every candidate, whatever
  its distance: there is no radius filter.
\<close>

lemma candidates_returned_when_cursor_completes:
  assumes "sorts L" and "\<forall>k. \<not> F (F_Next k)"
    and "findNearbyCitiesByLatLng L F db lat lng = Inr cs"
    and "c \<in> set (cities db)" and "g \<in> set (geospatial_index db)"
    and "sqlite_eq L (c_id c) (g_city_id g)"
    and "prefix (take (nat (geohash_EstimateLengthRequired L 100)) (geohash_Encode L lat lng))
           (g_geohash g)"
  shows "sorted (map Distance cs)
         \<and> (\<exists>r\<in>set cs. candidate L lat lng (c, g) = Some r
                \<and> City r = c_city c \<and> Geohash r = g_geohash g)"
proof -
  let ?p = "take (nat (geohash_EstimateLengthRequired L 100)) (geohash_Encode L lat lng)"
  from assms(3) obtain rows cs0 where
    q: "query_LIKE L F db (?p @ ''%'') = Inr rows"
    and sc: "scanRows L F lat lng 0 (fst (rows_Next F 0 rows)) [] = Inr cs0"
    and cs: "cs = sort_Slice L byDistance cs0"
    by (rule findNearby_Inr)
  from assms(7) have "sqlite_like (?p @ ''%'') (g_geohash g)" by (rule prefix_like)
  with assms(4-6) query_LIKE_set [OF q] have "(c, g) \<in> set rows" by simp
  moreover from assms(2) have "fst (rows_Next F 0 rows) = rows" by (simp add: rows_Next_all)
  moreover from scanRows_Inr [OF sc]
  have "map Some cs0 = map (candidate L lat lng) (fst (rows_Next F 0 rows))" by simp
  ultimately obtain r where r: "r \<in> set cs0" and cand: "candidate L lat lng (c, g) = Some r"
    using map_Some_set2 [of cs0 "candidate L lat lng" rows "(c, g)"] by auto
  from r cs assms(1) have "r \<in> set cs" by (simp add: sorts_set)
  moreover from cs assms(1) have "sorted (map Distance cs)" by (simp add: sorts_def)
  ultimately show ?thesis using cand candidate_fields [OF cand] by auto
qed

section \<open>IP-based resolution: private and non-IPv4 addresses\<close>

declare bytesWithinRange_from.simps [simp del]

lemma To4_IPv4: "To4 (IPv4 a b c d) = [a, b, c, d]"
  by (simp add: To4_def IPv4_def)

lemma IPv4_not_Nil: "IPv4 a b c d \<noteq> []"
  by (simp add: IPv4_def)

lemma bytesWithinRange_Nil: "bytesWithinRange [] start end' = Inr True"
  by (simp add: bytesWithinRange_def bytesWithinRange_from.simps)

lemma bytesWithinRange_from_end:
  "length b \<le> i \<Longrightarrow> bytesWithinRange_from i b start end' = Inr True"
  by (subst bytesWithinRange_from.simps) simp

lemma bytesWithinRange_from_step:
  "i < length b \<Longrightarrow> i < length start \<Longrightarrow> i < length end' \<Longrightarrow>
     bytesWithinRange_from i b start end' =
       (if start ! i \<le> b ! i \<and> b ! i \<le> end' ! i
        then bytesWithinRange_from (Suc i) b start end' else Inr False)"
  by (subst bytesWithinRange_from.simps) auto

lemma bytesWithinRange_4:
  "bytesWithinRange [a, b, c, d] [s0, s1, s2, s3] [e0, e1, e2, e3] =
     Inr ((s0 \<le> a \<and> a \<le> e0) \<and> (s1 \<le> b \<and> b \<le> e1) \<and> (s2 \<le> c \<and> c \<le> e2)
          \<and> (s3 \<le> d \<and> d \<le> e3))"
proof -
  let ?b = "[a, b, c, d]" and ?s = "[s0, s1, s2, s3]" and ?e = "[e0, e1, e2, e3]"
  define p0 where "p0 = (s0 \<le> a \<and> a \<le> e0)"
  define p1 where "p1 = (s1 \<le> b \<and> b \<le> e1)"
  define p2 where "p2 = (s2 \<le> c \<and> c \<le> e2)"
  define p3 where "p3 = (s3 \<le> d \<and> d \<le> e3)"
  have r4: "bytesWithinRange_from (Suc (Suc (Suc (Suc 0)))) ?b ?s ?e = Inr True"
    by (simp add: bytesWithinRange_from_end)
  have r3: "bytesWithinRange_from (Suc (Suc (Suc 0))) ?b ?s ?e = (if p3 then Inr True else Inr False)"
    using bytesWithinRange_from_step [of "Suc (Suc (Suc 0))" ?b ?s ?e] r4 by (simp add: p3_def)
  have r2: "bytesWithinRange_from (Suc (Suc 0)) ?b ?s ?e = (if p2 then (if p3 then Inr True else Inr False) else Inr False)"
    using bytesWithinRange_from_step [of "Suc (Suc 0)" ?b ?s ?e] r3 by (simp add: p2_def)
  have r1: "bytesWithinRange_from (Suc 0) ?b ?s ?e =
      (if p1 then (if p2 then (if p3 then Inr True else Inr False) else Inr False) else Inr False)"
    using bytesWithinRange_from_step [of "Suc 0" ?b ?s ?e] r2 by (simp add: p1_def)
  have r0: "bytesWithinRange_from 0 ?b ?s ?e =
      (if p0 then (if p1 then (if p2 then (if p3 then Inr True else Inr False) else Inr False)
         else Inr False) else Inr False)"
    using bytesWithinRange_from_step [of 0 ?b ?s ?e] r1 by (simp add: p0_def)
  have "bytesWithinRange ?b ?s ?e = Inr (p0 \<and> p1 \<and> p2 \<and> p3)"
    unfolding bytesWithinRange_def r0 by simp
  then show ?thesis by (simp only: p0_def p1_def p2_def p3_def)
qed

lemma byte_le_255: "(x :: 8 word) \<le> 255"
proof -
  have "(255 :: 8 word) = - 1" by simp
  then show ?thesis by (simp only: word_n1_ge)
qed

lemma within_10:
  "bytesWithinRange [a, b, c, d] (To4 (IPv4 10 0 0 0)) (To4 (IPv4 10 255 255 255)) = Inr (a = 10)"
  unfolding To4_IPv4 bytesWithinRange_4 using byte_le_255 by auto

lemma within_172:
  "bytesWithinRange [a, b, c, d] (To4 (IPv4 172 16 0 0)) (To4 (IPv4 172 31 255 255)) =
     Inr (a = 172 \<and> 16 \<le> b \<and> b \<le> 31)"
  unfolding To4_IPv4 bytesWithinRange_4 using byte_le_255 by auto

lemma within_192:
  "bytesWithinRange [a, b, c, d] (To4 (IPv4 192 168 0 0)) (To4 (IPv4 192 168 255 255)) =
     Inr (a = 192 \<and> b = 168)"
  unfolding To4_IPv4 bytesWithinRange_4 using byte_le_255 by auto

lemma isPrivateIP_4:
  assumes "parses_ranges L" and "To4 ip = [a, b, c, d]"
  shows "isPrivateIP L ip = Inr (private_range a b)"
proof -
  from assms(1) have "privateIPv4Ranges L =
      [(IPv4 10 0 0 0, IPv4 10 255 255 255), (IPv4 172 16 0 0, IPv4 172 31 255 255),
       (IPv4 192 168 0 0, IPv4 192 168 255 255)]"
    by (simp add: privateIPv4Ranges_def parses_ranges_def)
  then show ?thesis
    by (simp add: isPrivateIP_def assms(2) within_10 within_172 within_192 private_range_def)
qed

lemma isPrivateIP_Nil:
  assumes "To4 ip = []"
  shows "isPrivateIP L ip = Inr True"
  using assms by (simp add: isPrivateIP_def privateIPv4Ranges_def bytesWithinRange_Nil)

text \<open>
  Claim C6. For an address whose four bytes lie in 10.0.0.0/8, 172.16.0.0/12 or
  192.168.0.0/16, \<^verbatim>\<open>isPrivateIP\<close> is true and \<^verbatim>\<open>indexHandler\<close> renders the empty page
  without any lookup in \<^verbatim>\<open>ip2location\<close>.
\<close>

theorem private_address_not_looked_up:
  assumes "parses_ranges L" and "To4 (net_ParseIP L ip) = [a, b, c, d]" and "private_range a b"
  shows "isPrivateIP L (net_ParseIP L ip) = Inr True
         \<and> indexHandler L F db (Inr ip) = (Rendered PageData0, [])"
  using isPrivateIP_4 [OF assms(1,2)] assms(3) by (simp add: indexHandler_def)

lemma ex_parses: "parses_ranges ex_libs"
  by (simp add: parses_ranges_def ex_libs_def ex_addresses_def)

theorem private_address_not_looked_up_witness:
  "parses_ranges ex_libs \<and> To4 (net_ParseIP ex_libs ''192.168.1.1'') = [192, 168, 1, 1]
   \<and> private_range 192 168
   \<and> indexHandler ex_libs no_faults ex_built (Inr ''192.168.1.1'') = (Rendered PageData0, [])"
proof -
  have t: "To4 (net_ParseIP ex_libs ''192.168.1.1'') = [192, 168, 1, 1]"
    by (simp add: ex_libs_def ex_addresses_def To4_IPv4)
  have p: "private_range 192 168" by (simp add: private_range_def)
  show ?thesis
    using private_address_not_looked_up [OF ex_parses t p, of no_faults ex_built] ex_parses t p
    by simp
qed

text \<open>
  Claim C10. For an address without a four-byte form (\<^verbatim>\<open>To4\<close> returns \<^verbatim>\<open>nil\<close>, as for an
  IPv6 address), the loop of \<^verbatim>\<open>bytesWithinRange\<close> runs over no byte and returns true, so
  \<^verbatim>\<open>isPrivateIP\<close> is true and \<^verbatim>\<open>indexHandler\<close> renders the empty page without any lookup.
\<close>

theorem non_ipv4_treated_as_private:
  assumes "To4 (net_ParseIP L ip) = []"
  shows "isPrivateIP L (net_ParseIP L ip) = Inr True
         \<and> indexHandler L F db (Inr ip) = (Rendered PageData0, [])"
  using isPrivateIP_Nil [OF assms] by (simp add: indexHandler_def)

theorem non_ipv4_treated_as_private_witness:
  "To4 (net_ParseIP ex_libs ''2001:db8::1'') = []
   \<and> isPrivateIP ex_libs (net_ParseIP ex_libs ''2001:db8::1'') = Inr True
   \<and> indexHandler ex_libs no_faults ex_built (Inr ''2001:db8::1'') = (Rendered PageData0, [])"
proof -
  have t: "To4 (net_ParseIP ex_libs ''2001:db8::1'') = []"
    by (simp add: ex_libs_def ex_addresses_def To4_def)
  show ?thesis
    using non_ipv4_treated_as_private [OF t, of no_faults ex_built] t by simp
qed

text \<open>An address outside the three ranges does reach the lookup.\<close>

lemma public_address_looked_up:
  "indexHandler ex_libs no_faults ex_built (Inr ''8.8.8.8'') = (Rendered PageData0, [0x08080808])"
proof -
  have ip: "net_ParseIP ex_libs ''8.8.8.8'' = IPv4 8 8 8 8"
    by (simp add: ex_libs_def ex_addresses_def)
  have "isPrivateIP ex_libs (IPv4 8 8 8 8) = Inr (private_range 8 8)"
    by (rule isPrivateIP_4 [OF ex_parses To4_IPv4])
  then have priv: "isPrivateIP ex_libs (IPv4 8 8 8 8) = Inr False"
    by (simp add: private_range_def)
  have int: "ipToInteger ex_libs ''8.8.8.8'' = Inr 0x08080808"
    by (simp add: ipToInteger_def ip To4_IPv4 IPv4_not_Nil)
  have q: "queryRow_ip2location ex_libs no_faults ex_built 0x08080808 = Inl ErrNoRows"
    by (simp add: queryRow_ip2location_def no_faults_def ex_libs_def)
  show ?thesis by (simp add: indexHandler_def ip priv int q)
qed

section \<open>The search handlers: no match against failure\<close>

lemma scanRows_Inl:
  "scanRows L F lat lng k rows acc = Inl e \<Longrightarrow> e = ErrDriver ''scan'' \<or> e = ErrConvert ''float64''"
proof (induction rows arbitrary: k acc)
  case Nil
  then show ?case by simp
next
  case (Cons cg rows)
  show ?case
  proof (cases "rows_Scan L F k cg")
    case (Inl err)
    with Cons.prems have "e = err" by simp
    with Inl show ?thesis
      by (auto simp: rows_Scan_def split: if_splits option.splits)
  next
    case (Inr t)
    with Cons.prems Cons.IH show ?thesis by simp
  qed
qed

lemma findNearbyCitiesByLatLng_Inl:
  "findNearbyCitiesByLatLng L F db lat lng = Inl e \<Longrightarrow>
     is_Panic e \<or> e = ErrDriver ''query'' \<or> e = ErrDriver ''scan'' \<or> e = ErrConvert ''float64''"
  unfolding findNearbyCitiesByLatLng_def Let_def query_LIKE_def
  by (auto split: if_splits sum.splits dest: scanRows_Inl)

lemma queryRow_MATCH_NoRows:
  "(queryRow_MATCH L F db q = Inl ErrNoRows) =
     (\<not> F F_FtsLookup \<and> (case cities_fts db of None \<Rightarrow> False | Some t \<Rightarrow> fts5_MATCH L q t = Inr []))"
  unfolding queryRow_MATCH_def
  by (auto split: option.splits sum.splits list.splits)

lemma findNearbyCities_NoRows:
  "(findNearbyCities L F db fromCity = Inl ErrNoRows) = no_row L F db fromCity"
proof -
  have "findNearbyCitiesByLatLng L F db lat lng \<noteq> Inl ErrNoRows" for lat lng
    using findNearbyCitiesByLatLng_Inl [of L F db lat lng ErrNoRows] by auto
  then show ?thesis
    unfolding findNearbyCities_def Let_def no_row_def queryRow_MATCH_NoRows [symmetric]
    by (auto split: sum.splits)
qed

lemma pages_differ: "oops_page \<noteq> no_match_page" "PageData0\<lparr>FromCity := q, NearbyCities := cs\<rparr> \<noteq> no_match_page"
  by (simp_all add: oops_page_def no_match_page_def PageData0_def)

text \<open>
  Claim C7. Both variants of \<^verbatim>\<open>searchHandler\<close> render "No matching city found." exactly
  when the full-text lookup ran and matched no row (\<^verbatim>\<open>sql.ErrNoRows\<close>). Every other error
  of \<^verbatim>\<open>findNearbyCities\<close> gives a different outcome: the later variant renders the page
  "Oops! Something went wrong. Please try again later.", the earlier one returns the error
  to the router.
\<close>

theorem no_match_distinct_from_error:
  "(searchHandler L F db fromCity = Rendered no_match_page) = no_row L F db fromCity
   \<and> (searchHandler_returning L F db fromCity = Rendered no_match_page) = no_row L F db fromCity
   \<and> (findNearbyCities L F db fromCity = Inl e \<and> e \<noteq> ErrNoRows \<and> \<not> is_Panic e \<longrightarrow>
        searchHandler L F db fromCity = Rendered oops_page
        \<and> searchHandler_returning L F db fromCity = Failed e)
   \<and> oops_page \<noteq> no_match_page"
proof (cases "findNearbyCities L F db fromCity")
  case (Inl err)
  show ?thesis
  proof (cases "err = ErrNoRows")
    case True
    with Inl findNearbyCities_NoRows [of L F db fromCity] show ?thesis
      by (simp add: searchHandler_def searchHandler_returning_def no_match_page_def [symmetric]
            pages_differ)
  next
    case False
    with Inl findNearbyCities_NoRows [of L F db fromCity] show ?thesis
      by (simp add: searchHandler_def searchHandler_returning_def oops_page_def [symmetric]
            no_match_page_def [symmetric] pages_differ)
  qed
next
  case (Inr cs)
  with findNearbyCities_NoRows [of L F db fromCity] show ?thesis
    by (simp add: searchHandler_def searchHandler_returning_def pages_differ)
qed

theorem no_match_distinct_from_error_witness:
  "no_row ex_libs no_faults ex_built ''Hue''
   \<and> searchHandler ex_libs no_faults ex_built ''Hue'' = Rendered no_match_page
   \<and> searchHandler_returning ex_libs no_faults ex_built ''Hue'' = Rendered no_match_page
   \<and> findNearbyCities ex_libs (fail_at F_FtsLookup) ex_built ''Hanoi'' = Inl (ErrDriver ''query'')
   \<and> ErrDriver ''query'' \<noteq> ErrNoRows \<and> \<not> is_Panic (ErrDriver ''query'')
   \<and> searchHandler ex_libs (fail_at F_FtsLookup) ex_built ''Hanoi'' = Rendered oops_page
   \<and> searchHandler_returning ex_libs (fail_at F_FtsLookup) ex_built ''Hanoi''
        = Failed (ErrDriver ''query'')"
proof -
  have n: "no_row ex_libs no_faults ex_built ''Hue''"
    by (simp add: no_row_def normalizeQuery_def ex_defs)
  have f: "findNearbyCities ex_libs (fail_at F_FtsLookup) ex_built ''Hanoi'' = Inl (ErrDriver ''query'')"
    by (simp add: findNearbyCities_def queryRow_MATCH_def fail_at_def)
  show ?thesis
    using no_match_distinct_from_error [of ex_libs no_faults ex_built "''Hue''"]
      no_match_distinct_from_error [of ex_libs "fail_at F_FtsLookup" ex_built "''Hanoi''" "ErrDriver ''query''"]
      n f
    by simp
qed

section \<open>The bounding-box request path: what is validated\<close>

text \<open>
  Claim C9 says that an out-of-range latitude such as 200 is rejected with a validation
  error. The handler \<^verbatim>\<open>nearby\<close> checks only that \<^verbatim>\<open>strconv.ParseFloat\<close> succeeds: the
  request with latitude 200 is answered 200 OK with the (here empty) list of the range query.
\<close>

theorem out_of_range_latitude_accepted:
  "nearby ex_libs no_faults ex_built
     \<lparr>q_latitude = ''200'', q_longitude = ''105.8342'', q_radius = ''100''\<rparr> = HttpOK []"
  by (simp add: nearby_def query_BETWEEN_def ex_defs)

text \<open>
  Claim C9, amended. \<^verbatim>\<open>nearby\<close> answers 400 "Invalid latitude parameter" exactly when the
  latitude does not parse as a number; when all three parameters parse, whatever their
  values, the answer is never a validation error.
\<close>

theorem latitude_rejected_only_if_unparsable:
  "(strconv_ParseFloat L (q_latitude q) = None \<longrightarrow>
      nearby L F db q = HttpError 400 ''Invalid latitude parameter'')
   \<and> (strconv_ParseFloat L (q_latitude q) \<noteq> None \<longrightarrow>
      nearby L F db q \<noteq> HttpError 400 ''Invalid latitude parameter'')
   \<and> (strconv_ParseFloat L (q_latitude q) \<noteq> None \<and> strconv_ParseFloat L (q_longitude q) \<noteq> None
        \<and> strconv_ParseFloat L (q_radius q) \<noteq> None \<longrightarrow>
      (\<forall>msg. nearby L F db q \<noteq> HttpError 400 msg))
   \<and> (strconv_ParseFloat L (q_latitude q) = Some lat
        \<and> strconv_ParseFloat L (q_longitude q) = Some lng
        \<and> strconv_ParseFloat L (q_radius q) = Some radius
        \<and> geohash_BoundingBox L lat lng radius = (minLat, maxLat, minLng, maxLng)
        \<and> query_BETWEEN L F db (geohash_Encode L minLat minLng) (geohash_Encode L maxLat maxLng)
            = Inr rows
        \<and> scanNearby L F 0 (fst (rows_Next F 0 rows)) [] = Inr cs \<and> \<not> F F_Marshal \<longrightarrow>
      nearby L F db q = HttpOK cs)"
  unfolding nearby_def Let_def
  by (auto split: option.splits prod.splits sum.splits)

theorem latitude_rejected_only_if_unparsable_witness:
  "strconv_ParseFloat ex_libs ''abc'' = None
   \<and> nearby ex_libs no_faults ex_built
        \<lparr>q_latitude = ''abc'', q_longitude = ''105.8342'', q_radius = ''100''\<rparr>
      = HttpError 400 ''Invalid latitude parameter''
   \<and> strconv_ParseFloat ex_libs ''200'' = Some 200
   \<and> strconv_ParseFloat ex_libs ''105.8342'' = Some 105.8342
   \<and> strconv_ParseFloat ex_libs ''100'' = Some 100
   \<and> geohash_BoundingBox ex_libs 200 105.8342 100
        = (200 - 100 / 111.32, 200 + 100 / 111.32, 105.8342 - 100 / 111.32, 105.8342 + 100 / 111.32)
   \<and> query_BETWEEN ex_libs no_faults ex_built ''s00000000000'' ''s00000000000'' = Inr []
   \<and> \<not> no_faults F_Marshal
   \<and> nearby ex_libs no_faults ex_built
        \<lparr>q_latitude = ''200'', q_longitude = ''105.8342'', q_radius = ''100''\<rparr>
      \<noteq> HttpError 400 ''Invalid latitude parameter''"
proof -
  have b: "query_BETWEEN ex_libs no_faults ex_built ''s00000000000'' ''s00000000000'' = Inr []"
    by (simp add: query_BETWEEN_def ex_defs)
  show ?thesis
    using latitude_rejected_only_if_unparsable [of ex_libs
        "\<lparr>q_latitude = ''abc'', q_longitude = ''105.8342'', q_radius = ''100''\<rparr>"
        no_faults ex_built]
      latitude_rejected_only_if_unparsable [where L = ex_libs
        and q = "\<lparr>q_latitude = ''200'', q_longitude = ''105.8342'', q_radius = ''100''\<rparr>"
        and F = no_faults and db = ex_built and lat = 200 and lng = "105.8342" and radius = 100
        and minLat = "200 - 100 / 111.32" and maxLat = "200 + 100 / 111.32"
        and minLng = "105.8342 - 100 / 111.32" and maxLng = "105.8342 + 100 / 111.32"
        and rows = "[]" and cs = "[]"] b
    by (simp add: ex_libs_def ex_floats_def no_faults_def)
qed

section \<open>The index builder: transaction and idempotence\<close>

lemma tx_Exec_insert_Inr:
  "tx_Exec_insert F k t gh i = Inr t' \<Longrightarrow>
     i \<notin> set (map g_city_id (geospatial_index (working t)))
     \<and> t' = t\<lparr>working := (working t)\<lparr>geospatial_index :=
               geospatial_index (working t) @ [\<lparr>g_geohash = gh, g_city_id = i\<rparr>]\<rparr>\<rparr>"
  by (auto simp: tx_Exec_insert_def split: if_splits)

lemma insertRows_frame:
  "snapshot (snd (insertRows L F k rows t)) = snapshot t
   \<and> finished (snd (insertRows L F k rows t)) = finished t
   \<and> migrations (working (snd (insertRows L F k rows t))) = migrations (working t)
   \<and> cities (working (snd (insertRows L F k rows t))) = cities (working t)
   \<and> cities_fts (working (snd (insertRows L F k rows t))) = cities_fts (working t)
   \<and> ip2location (working (snd (insertRows L F k rows t))) = ip2location (working t)"
proof (induction rows arbitrary: k t)
  case Nil
  then show ?case by simp
next
  case (Cons r rows)
  show ?case
  proof (cases "F (F_Scan k)")
    case True
    then show ?thesis by simp
  next
    case False
    show ?thesis
    proof (cases "indexEntry L r")
      case None
      with False show ?thesis
        by (auto simp: indexEntry_def split: option.splits)
    next
      case (Some e)
      then obtain i la lo where p: "strconv_ParseInt L (c_id r) = Some i"
        "strconv_ParseFloat L (c_lat r) = Some la" "strconv_ParseFloat L (c_lng r) = Some lo"
        by (auto simp: indexEntry_def split: option.splits)
      show ?thesis
      proof (cases "tx_Exec_insert F k t (geohash_Encode L la lo) i")
        case (Inl err)
        with False p show ?thesis by simp
      next
        case (Inr t')
        from tx_Exec_insert_Inr [OF Inr] Cons.IH [of "Suc k" t'] False p Inr
        show ?thesis by simp
      qed
    qed
  qed
qed

lemma insertRows_None:
  "fst (insertRows L F k rows t) = None \<Longrightarrow>
     \<exists>es. geospatial_index (working (snd (insertRows L F k rows t)))
            = geospatial_index (working t) @ es
          \<and> map Some es = map (indexEntry L) rows"
proof (induction rows arbitrary: k t)
  case Nil
  then show ?case by simp
next
  case (Cons r rows)
  from Cons.prems have nf: "\<not> F (F_Scan k)" by (auto split: if_splits)
  from Cons.prems nf obtain i la lo where p: "strconv_ParseInt L (c_id r) = Some i"
    "strconv_ParseFloat L (c_lat r) = Some la" "strconv_ParseFloat L (c_lng r) = Some lo"
    by (auto split: option.splits)
  from Cons.prems nf p obtain t' where
    ins: "tx_Exec_insert F k t (geohash_Encode L la lo) i = Inr t'"
    by (auto split: sum.splits)
  from Cons.prems nf p ins have rest: "fst (insertRows L F (Suc k) rows t') = None"
    and eq: "insertRows L F k (r # rows) t = insertRows L F (Suc k) rows t'"
    by simp_all
  from Cons.IH [OF rest] obtain es where
    es: "geospatial_index (working (snd (insertRows L F (Suc k) rows t')))
           = geospatial_index (working t') @ es"
    and m: "map Some es = map (indexEntry L) rows"
    by blast
  from tx_Exec_insert_Inr [OF ins]
  have t': "geospatial_index (working t') = geospatial_index (working t)
              @ [\<lparr>g_geohash = geohash_Encode L la lo, g_city_id = i\<rparr>]"
    by simp
  have e: "indexEntry L r = Some \<lparr>g_geohash = geohash_Encode L la lo, g_city_id = i\<rparr>"
    using p by (simp add: indexEntry_def)
  show ?case
    unfolding eq es t'
    by (rule exI [of _ "\<lparr>g_geohash = geohash_Encode L la lo, g_city_id = i\<rparr> # es"])
       (simp add: m e)
qed

lemma insertRows_distinct:
  "distinct (map g_city_id (geospatial_index (working t))) \<Longrightarrow>
     distinct (map g_city_id (geospatial_index (working (snd (insertRows L F k rows t)))))"
proof (induction rows arbitrary: k t)
  case Nil
  then show ?case by simp
next
  case (Cons r rows)
  show ?case
  proof (cases "F (F_Scan k)")
    case True
    with Cons.prems show ?thesis by simp
  next
    case False
    show ?thesis
    proof (cases "indexEntry L r")
      case None
      with False Cons.prems show ?thesis
        by (auto simp: indexEntry_def split: option.splits)
    next
      case (Some e)
      then obtain i la lo where p: "strconv_ParseInt L (c_id r) = Some i"
        "strconv_ParseFloat L (c_lat r) = Some la" "strconv_ParseFloat L (c_lng r) = Some lo"
        by (auto simp: indexEntry_def split: option.splits)
      show ?thesis
      proof (cases "tx_Exec_insert F k t (geohash_Encode L la lo) i")
        case (Inl err)
        with False p Cons.prems show ?thesis by simp
      next
        case (Inr t')
        from tx_Exec_insert_Inr [OF Inr] Cons.prems
        have "distinct (map g_city_id (geospatial_index (working t')))" by simp
        from Cons.IH [OF this, of "Suc k"] False p Inr show ?thesis by simp
      qed
    qed
  qed
qed

lemma rows_Next_complete: "\<not> snd (rows_Next F k rs) \<Longrightarrow> fst (rows_Next F k rs) = rs"
  by (induction rs arbitrary: k) (auto split: if_splits)


lemma tx_Exec_mark_Inr:
  "tx_Exec_mark F t = Inr t' \<Longrightarrow>
     marker \<notin> set (migrations (working t))
     \<and> t' = t\<lparr>working := (working t)\<lparr>migrations := migrations (working t) @ [marker]\<rparr>\<rparr>"
  by (auto simp: tx_Exec_mark_def split: if_splits)

lemma indexRows_unfold:
  "indexRows L F t =
     (if F F_SelectCities
        then (Some (Errorf ''error selecting lat, lng from cities table'' (ErrDriver ''query'')), t)
      else case fst (insertRows L F 0 (fst (rows_Next F 0 (cities (working t)))) t) of
        Some err \<Rightarrow> (Some err, snd (insertRows L F 0 (fst (rows_Next F 0 (cities (working t)))) t))
      | None \<Rightarrow>
          if snd (rows_Next F 0 (cities (working t)))
            then (Some (Errorf ''error during iteration'' (ErrDriver ''next'')),
                  snd (insertRows L F 0 (fst (rows_Next F 0 (cities (working t)))) t))
          else (case tx_Exec_mark F (snd (insertRows L F 0 (fst (rows_Next F 0 (cities (working t)))) t)) of
                  Inl err \<Rightarrow> (Some (Errorf ''error marking migration as applied'' err),
                     snd (insertRows L F 0 (fst (rows_Next F 0 (cities (working t)))) t))
                | Inr t'' \<Rightarrow>
                    if F F_Commit
                      then (Some (Errorf ''error committing transaction'' (ErrDriver ''commit'')),
                            t''\<lparr>working := snapshot t'', finished := True\<rparr>)
                    else (None, t''\<lparr>finished := True\<rparr>)))"
  by (simp add: indexRows_def tx_Commit_def split: prod.splits option.splits sum.splits)

lemma indexRows_Some:
  assumes "\<not> finished t" and "fst (indexRows L F t) = Some e"
  shows "working (tx_Rollback (snd (indexRows L F t))) = snapshot t"
proof -
  let ?ins = "insertRows L F 0 (fst (rows_Next F 0 (cities (working t)))) t"
  have fr: "snapshot (snd ?ins) = snapshot t" "finished (snd ?ins) = finished t"
    using insertRows_frame [of L F 0 "fst (rows_Next F 0 (cities (working t)))" t] by simp_all
  show ?thesis
  proof (cases "tx_Exec_mark F (snd ?ins)")
    case (Inl err)
    with assms fr show ?thesis
      unfolding indexRows_unfold
      by (simp add: tx_Rollback_def split: if_splits option.splits)
  next
    case (Inr t'')
    from tx_Exec_mark_Inr [OF Inr] fr
    have "snapshot t'' = snapshot t" "finished t'' = finished t" by simp_all
    with assms fr Inr show ?thesis
      unfolding indexRows_unfold
      by (simp add: tx_Rollback_def split: if_splits option.splits)
  qed
qed

lemma indexRows_None:
  assumes "fst (indexRows L F t) = None"
  shows "marker \<notin> set (migrations (working t))
     \<and> (\<exists>es. working (tx_Rollback (snd (indexRows L F t))) =
                (working t)\<lparr>geospatial_index := geospatial_index (working t) @ es,
                             migrations := migrations (working t) @ [marker]\<rparr>
             \<and> map Some es = map (indexEntry L) (cities (working t)))"
proof -
  let ?rows = "fst (rows_Next F 0 (cities (working t)))"
  let ?ins = "insertRows L F 0 ?rows t"
  from assms have ok: "fst ?ins = None" and it: "\<not> snd (rows_Next F 0 (cities (working t)))"
    unfolding indexRows_unfold by (auto split: if_splits option.splits)
  from it have rows: "?rows = cities (working t)" by (rule rows_Next_complete)
  from assms ok it obtain t'' where mk: "tx_Exec_mark F (snd ?ins) = Inr t''"
    and res: "indexRows L F t = (None, t''\<lparr>finished := True\<rparr>)"
    unfolding indexRows_unfold by (auto split: if_splits sum.splits)
  from insertRows_None [OF ok] obtain es where
    es: "geospatial_index (working (snd ?ins)) = geospatial_index (working t) @ es"
    and m: "map Some es = map (indexEntry L) ?rows"
    by blast
  have fr: "migrations (working (snd ?ins)) = migrations (working t)"
    "cities (working (snd ?ins)) = cities (working t)"
    "cities_fts (working (snd ?ins)) = cities_fts (working t)"
    "ip2location (working (snd ?ins)) = ip2location (working t)"
    using insertRows_frame [of L F 0 ?rows t] by simp_all
  from tx_Exec_mark_Inr [OF mk] have
    nm: "marker \<notin> set (migrations (working (snd ?ins)))"
    and t'': "working t'' = (working (snd ?ins))\<lparr>migrations := migrations (working (snd ?ins)) @ [marker]\<rparr>"
    by simp_all
  have "working t'' = (working t)\<lparr>geospatial_index := geospatial_index (working t) @ es,
                             migrations := migrations (working t) @ [marker]\<rparr>"
    unfolding t'' by (rule database.equality) (simp_all add: fr es)
  with nm fr m rows show ?thesis
    unfolding res by (auto simp: tx_Rollback_def)
qed

lemma indexRows_distinct:
  assumes "distinct (map g_city_id (geospatial_index (working t)))"
    and "fst (indexRows L F t) = None"
  shows "distinct (map g_city_id (geospatial_index (working (tx_Rollback (snd (indexRows L F t))))))"
proof -
  let ?rows = "fst (rows_Next F 0 (cities (working t)))"
  let ?ins = "insertRows L F 0 ?rows t"
  from assms(2) obtain t'' where mk: "tx_Exec_mark F (snd ?ins) = Inr t''"
    and res: "indexRows L F t = (None, t''\<lparr>finished := True\<rparr>)"
    unfolding indexRows_unfold by (auto split: if_splits sum.splits option.splits)
  from insertRows_distinct [OF assms(1), of L F 0 ?rows] tx_Exec_mark_Inr [OF mk]
  show ?thesis unfolding res by (simp add: tx_Rollback_def)
qed

lemma buildIndex_Some:
  "fst (buildIndex L F db) = Some e \<Longrightarrow> snd (buildIndex L F db) = db"
  using indexRows_Some [of "\<lparr>snapshot = db, working = db, finished = False\<rparr>" L F e]
  by (auto simp: buildIndex_def db_Begin_def split: if_splits prod.splits)

lemma buildIndex_None:
  "fst (buildIndex L F db) = None \<Longrightarrow>
     marker \<notin> set (migrations db)
     \<and> (\<exists>es. snd (buildIndex L F db) =
               db\<lparr>geospatial_index := geospatial_index db @ es,
                  migrations := migrations db @ [marker]\<rparr>
             \<and> map Some es = map (indexEntry L) (cities db))"
  using indexRows_None [of L F "\<lparr>snapshot = db, working = db, finished = False\<rparr>"]
  by (auto simp: buildIndex_def db_Begin_def split: if_splits prod.splits)

lemma buildIndex_distinct:
  assumes "distinct (map g_city_id (geospatial_index db))"
  shows "distinct (map g_city_id (geospatial_index (snd (buildIndex L F db))))"
proof (cases "fst (buildIndex L F db)")
  case None
  with indexRows_distinct [of "\<lparr>snapshot = db, working = db, finished = False\<rparr>" L F] assms
  show ?thesis
    by (auto simp: buildIndex_def db_Begin_def split: if_splits prod.splits)
next
  case (Some e)
  with buildIndex_Some [of L F db e] assms show ?thesis by simp
qed


lemma prepare_outcome:
  assumes "marker \<in> set (migrations db) \<Longrightarrow> P (None, db)"
    and "\<And>e db1. geospatial_index db1 = geospatial_index db \<Longrightarrow> migrations db1 = migrations db
            \<Longrightarrow> P (Some e, db1)"
    and "\<And>db1. marker \<notin> set (migrations db) \<Longrightarrow> geospatial_index db1 = geospatial_index db
            \<Longrightarrow> migrations db1 = migrations db \<Longrightarrow> P (buildIndex L F db1)"
  shows "P (prepare L F db)"
  unfolding prepare_def Let_def by (simp add: assms)

lemma createSpatialIndex_outcome:
  assumes "marker \<in> set (migrations db) \<Longrightarrow> P (None, db)"
    and "\<And>e db1. geospatial_index db1 = geospatial_index db \<Longrightarrow> migrations db1 = migrations db
            \<Longrightarrow> P (Some e, db1)"
    and "\<And>db1. marker \<notin> set (migrations db) \<Longrightarrow> geospatial_index db1 = geospatial_index db
            \<Longrightarrow> migrations db1 = migrations db \<Longrightarrow> P (buildIndex L F db1)"
  shows "P (createSpatialIndex L F db)"
  unfolding createSpatialIndex_def Let_def by (simp add: assms)

lemma buildIndex_all_or_nothing:
  assumes "marker \<notin> set (migrations db)" and "geospatial_index db1 = geospatial_index db"
    and "migrations db1 = migrations db"
  shows "all_or_nothing L db (buildIndex L F db1)"
proof (cases "fst (buildIndex L F db1)")
  case None
  from buildIndex_None [OF None] obtain es where
    "snd (buildIndex L F db1) = db1\<lparr>geospatial_index := geospatial_index db1 @ es,
        migrations := migrations db1 @ [marker]\<rparr>"
    and "map Some es = map (indexEntry L) (cities db1)"
    by blast
  with None assms show ?thesis by (simp add: all_or_nothing_def)
next
  case (Some e)
  with buildIndex_Some [OF Some] assms show ?thesis by (simp add: all_or_nothing_def)
qed

lemma prepare_all_or_nothing: "all_or_nothing L db (prepare L F db)"
proof (rule prepare_outcome)
  show "all_or_nothing L db (buildIndex L F db1)"
    if "marker \<notin> set (migrations db)" "geospatial_index db1 = geospatial_index db"
      "migrations db1 = migrations db" for db1
    using that by (rule buildIndex_all_or_nothing)
qed (simp_all add: all_or_nothing_def)

lemma createSpatialIndex_all_or_nothing: "all_or_nothing L db (createSpatialIndex L F db)"
proof (rule createSpatialIndex_outcome)
  show "all_or_nothing L db (buildIndex L F db1)"
    if "marker \<notin> set (migrations db)" "geospatial_index db1 = geospatial_index db"
      "migrations db1 = migrations db" for db1
    using that by (rule buildIndex_all_or_nothing)
qed (simp_all add: all_or_nothing_def)

lemma prepare_applied: "marker \<in> set (migrations db) \<Longrightarrow> snd (prepare L F db) = db"
  by (simp add: prepare_def)

lemma createSpatialIndex_applied:
  "marker \<in> set (migrations db) \<Longrightarrow> snd (createSpatialIndex L F db) = db"
  by (simp add: createSpatialIndex_def)

lemma buildIndex_marks:
  "fst (buildIndex L F db) = None \<Longrightarrow> marker \<in> set (migrations (snd (buildIndex L F db)))"
  using buildIndex_None [of L F db] by auto

lemma prepare_marks:
  "fst (prepare L F db) = None \<longrightarrow> marker \<in> set (migrations (snd (prepare L F db)))"
  by (rule prepare_outcome) (simp_all add: buildIndex_marks)

lemma createSpatialIndex_marks:
  "fst (createSpatialIndex L F db) = None \<longrightarrow>
     marker \<in> set (migrations (snd (createSpatialIndex L F db)))"
  by (rule createSpatialIndex_outcome) (simp_all add: buildIndex_marks)

lemma prepare_distinct:
  "distinct (map g_city_id (geospatial_index db)) \<longrightarrow>
     distinct (map g_city_id (geospatial_index (snd (prepare L F db))))"
  by (rule prepare_outcome) (auto intro: buildIndex_distinct)

lemma createSpatialIndex_distinct:
  "distinct (map g_city_id (geospatial_index db)) \<longrightarrow>
     distinct (map g_city_id (geospatial_index (snd (createSpatialIndex L F db))))"
  by (rule createSpatialIndex_outcome) (auto intro: buildIndex_distinct)


lemma indexEntry_geokey:
  "encodes_geokeys L \<Longrightarrow> indexEntry L r = Some e \<Longrightarrow> geokey (g_geohash e)"
  by (auto simp: indexEntry_def encodes_geokeys_def split: option.splits)

lemma buildIndex_geokeys:
  assumes "encodes_geokeys L" and "index_geokeys db"
  shows "index_geokeys (snd (buildIndex L F db))"
proof (cases "fst (buildIndex L F db)")
  case None
  from buildIndex_None [OF None] obtain es where
    s: "snd (buildIndex L F db) = db\<lparr>geospatial_index := geospatial_index db @ es,
        migrations := migrations db @ [marker]\<rparr>"
    and m: "map Some es = map (indexEntry L) (cities db)"
    by blast
  have "geokey (g_geohash e)" if "e \<in> set es" for e
  proof -
    from that m obtain r where "indexEntry L r = Some e"
      using map_Some_set [of es "indexEntry L" "cities db" e] by auto
    with assms(1) show ?thesis by (rule indexEntry_geokey)
  qed
  with assms(2) show ?thesis
    unfolding s by (auto simp: index_geokeys_def list_all_iff)
next
  case (Some e)
  with buildIndex_Some [OF Some] assms(2) show ?thesis by simp
qed

text \<open>The builder writes keys of the encoder only, so the index stays within the alphabet.\<close>

lemma prepare_geokeys:
  "encodes_geokeys L \<Longrightarrow> index_geokeys db \<Longrightarrow> index_geokeys (snd (prepare L F db))"
  by (rule prepare_outcome) (auto simp: index_geokeys_def intro: buildIndex_geokeys [unfolded index_geokeys_def])

lemma createSpatialIndex_geokeys:
  "encodes_geokeys L \<Longrightarrow> index_geokeys db \<Longrightarrow>
     index_geokeys (snd (createSpatialIndex L F db))"
  by (rule createSpatialIndex_outcome)
     (auto simp: index_geokeys_def intro: buildIndex_geokeys [unfolded index_geokeys_def])

lemma ex_prepare: "prepare ex_libs no_faults ex_fresh = (None, ex_built)"
  by (simp add: prepare_def buildIndex_def db_Begin_def indexRows_def tx_Exec_insert_def
        tx_Exec_mark_def tx_Commit_def tx_Rollback_def marker_def ex_defs)

lemma ex_createSpatialIndex:
  "createSpatialIndex ex_libs no_faults ex_fresh = (None, ex_built\<lparr>cities_fts := None\<rparr>)"
  by (simp add: createSpatialIndex_def buildIndex_def db_Begin_def indexRows_def tx_Exec_insert_def
        tx_Exec_mark_def tx_Commit_def tx_Rollback_def marker_def ex_defs)

lemma ex_prepare_fails:
  "prepare ex_libs (fail_at (F_Insert 2)) ex_fresh =
     (Some (Errorf ''error inserting into geospatial_index'' (ErrDriver ''insert'')),
      ex_fresh\<lparr>cities_fts := Some ex_cities\<rparr>)"
  by (simp add: prepare_def buildIndex_def db_Begin_def indexRows_def tx_Exec_insert_def
        tx_Exec_mark_def tx_Commit_def tx_Rollback_def marker_def fail_at_def ex_defs
        numeral_2_eq_2)

text \<open>
  Claim C4. With the migration marker present the builder leaves the database as it is:
  nothing is imported and nothing is written to the index. A build that succeeded has set
  the marker, so a second run after it changes nothing. The UNIQUE constraint on
  \<^verbatim>\<open>city_id\<close> keeps the index free of duplicate city identifiers through any run.
\<close>

theorem second_build_is_noop:
  "(marker \<in> set (migrations db) \<longrightarrow>
      snd (prepare L F db) = db \<and> snd (createSpatialIndex L F db) = db)
   \<and> (fst (prepare L F db) = None \<longrightarrow>
        snd (prepare L F' (snd (prepare L F db))) = snd (prepare L F db))
   \<and> (fst (createSpatialIndex L F db) = None \<longrightarrow>
        snd (createSpatialIndex L F' (snd (createSpatialIndex L F db)))
          = snd (createSpatialIndex L F db))
   \<and> (distinct (map g_city_id (geospatial_index db)) \<longrightarrow>
        distinct (map g_city_id (geospatial_index (snd (prepare L F db))))
        \<and> distinct (map g_city_id (geospatial_index (snd (createSpatialIndex L F db)))))"
  using prepare_applied [of db L F] createSpatialIndex_applied [of db L F]
    prepare_marks [of L F db] createSpatialIndex_marks [of L F db]
    prepare_applied [of "snd (prepare L F db)" L F']
    createSpatialIndex_applied [of "snd (createSpatialIndex L F db)" L F']
    prepare_distinct [of db L F] createSpatialIndex_distinct [of db L F]
  by blast

theorem second_build_is_noop_witness:
  "marker \<in> set (migrations ex_built)
   \<and> snd (prepare ex_libs no_faults ex_built) = ex_built
   \<and> snd (createSpatialIndex ex_libs no_faults ex_built) = ex_built
   \<and> prepare ex_libs no_faults ex_fresh = (None, ex_built)
   \<and> snd (prepare ex_libs no_faults (snd (prepare ex_libs no_faults ex_fresh))) = ex_built
   \<and> fst (createSpatialIndex ex_libs no_faults ex_fresh) = None
   \<and> snd (createSpatialIndex ex_libs no_faults
             (snd (createSpatialIndex ex_libs no_faults ex_fresh)))
        = snd (createSpatialIndex ex_libs no_faults ex_fresh)
   \<and> distinct (map g_city_id (geospatial_index ex_fresh))
   \<and> distinct (map g_city_id (geospatial_index ex_built))"
proof -
  have m: "marker \<in> set (migrations ex_built)" by (simp add: ex_built_def)
  have d: "distinct (map g_city_id (geospatial_index ex_fresh))" by (simp add: ex_fresh_def)
  show ?thesis
    using second_build_is_noop [of ex_built ex_libs no_faults no_faults]
      second_build_is_noop [of ex_fresh ex_libs no_faults no_faults]
      m d ex_prepare ex_createSpatialIndex
    by simp
qed

text \<open>
  Claim C5. The entries and the marker are written inside one transaction. Whatever call
  fails, the builder returns with the index and the migrations as they were; when it
  succeeds, all entries and the marker are there together. While the rows are inserted the
  committed state (the snapshot) does not change.
\<close>

theorem build_is_atomic:
  "all_or_nothing L db (prepare L F db) \<and> all_or_nothing L db (createSpatialIndex L F db)
   \<and> snapshot (snd (insertRows L F k rows t)) = snapshot t"
  using prepare_all_or_nothing [of L db F] createSpatialIndex_all_or_nothing [of L db F]
    insertRows_frame [of L F k rows t]
  by blast

theorem build_is_atomic_witness:
  "prepare ex_libs (fail_at (F_Insert 2)) ex_fresh =
     (Some (Errorf ''error inserting into geospatial_index'' (ErrDriver ''insert'')),
      ex_fresh\<lparr>cities_fts := Some ex_cities\<rparr>)
   \<and> geospatial_index (ex_fresh\<lparr>cities_fts := Some ex_cities\<rparr>) = geospatial_index ex_fresh
   \<and> migrations (ex_fresh\<lparr>cities_fts := Some ex_cities\<rparr>) = migrations ex_fresh
   \<and> prepare ex_libs no_faults ex_fresh = (None, ex_built)
   \<and> marker \<notin> set (migrations ex_fresh)
   \<and> migrations ex_built = migrations ex_fresh @ [marker]
   \<and> map Some (geospatial_index ex_built) = map (indexEntry ex_libs) (cities ex_built)
   \<and> marker \<in> set (migrations ex_built)
   \<and> prepare ex_libs no_faults ex_built = (None, ex_built)"
proof -
  have b: "prepare ex_libs no_faults ex_built = (None, ex_built)"
    by (simp add: prepare_def no_faults_def ex_built_def)
  show ?thesis
    using build_is_atomic [of ex_libs ex_fresh "fail_at (F_Insert 2)"]
      build_is_atomic [of ex_libs ex_fresh no_faults]
      build_is_atomic [of ex_libs ex_built no_faults]
      ex_prepare_fails ex_prepare b
    by (simp add: all_or_nothing_def ex_fresh_def ex_built_def)
qed

end
